theory Spec2Isabelle
  imports Main
begin

text \<open>
  A migration engine rewrites programs of the Closure namespace and prototype object model
  into modules and classes, as passes over the syntax tree. The repository holds its class
  utilities twice: \<^verbatim>\<open>src/utils/classes.js\<close>, called the base utility
  below, and a version
  extended with interfaces, namespace expressions and reassignment detection, called the
  extended utility. Where the two differ in a function, the model of the base utility's has
  the suffix \<open>_utils\<close>. The transforms of
  \<^verbatim>\<open>goog.exportProperty\<close> and of the equality
  helpers are files of their own.
\<close>

section \<open>Strings as the transforms use them\<close>

text \<open>
  JavaScript strings are modelled as \<open>string\<close>, lists of characters that stand for
  the code units below 256; the transforms look for ASCII text (annotation tags, stars,
  blanks and line feeds).
\<close>

definition NL :: char where
  "NL = CHR 0x0A"

text \<open>
  The white space removed by \<^verbatim>\<open>String.prototype.trim\<close> and matched by \<^verbatim>\<open>\s\<close>, among
  the code units below 256: blank, the control characters from tab to carriage return, and
  the no-break space.
\<close>

definition isWs :: "char \<Rightarrow> bool" where
  "isWs c = (c = CHR '' '' \<or> c = CHR 0x09 \<or> c = CHR 0x0A \<or> c = CHR 0x0B \<or> c = CHR 0x0C \<or> c = CHR 0x0D
              \<or> c = CHR 0xA0)"

definition trimEnd :: "string \<Rightarrow> string" where
  "trimEnd s = rev (dropWhile isWs (rev s))"

definition trim :: "string \<Rightarrow> string" where
  "trim s = trimEnd (dropWhile isWs s)"

text \<open>\<^verbatim>\<open>s.startsWith(p)\<close>.\<close>

fun startsWith :: "string \<Rightarrow> string \<Rightarrow> bool" where
  "startsWith [] s = True"
| "startsWith (p # ps) [] = False"
| "startsWith (p # ps) (c # cs) = (p = c \<and> startsWith ps cs)"

text \<open>\<^verbatim>\<open>s.includes(p)\<close>, which is also what an unanchored literal regular expression tests.\<close>

fun str_includes :: "string \<Rightarrow> string \<Rightarrow> bool" where
  "str_includes p [] = startsWith p []"
| "str_includes p (c # cs) = (startsWith p (c # cs) \<or> str_includes p cs)"

text \<open>\<^verbatim>\<open>s.split('\n')\<close>: the result always has at least one element.\<close>

fun splitOn :: "char \<Rightarrow> string \<Rightarrow> string list" where
  "splitOn d [] = [[]]"
| "splitOn d (c # cs) =
     (if c = d then [] # splitOn d cs
      else (case splitOn d cs of
              [] \<Rightarrow> [[c]]
            | l # ls \<Rightarrow> (c # l) # ls))"

definition splitLines :: "string \<Rightarrow> string list" where
  "splitLines s = splitOn NL s"

text \<open>\<^verbatim>\<open>parts.join('\n')\<close>.\<close>

fun joinLines :: "string list \<Rightarrow> string" where
  "joinLines [] = []"
| "joinLines [l] = l"
| "joinLines (l # m # ls) = l @ NL # joinLines (m # ls)"

text \<open>\<^verbatim>\<open>s.replace(pat, rep)\<close> with a string pattern: only the first occurrence is replaced.\<close>

fun replaceFirst :: "string \<Rightarrow> string \<Rightarrow> string \<Rightarrow> string" where
  "replaceFirst pat rep [] = (if startsWith pat [] then rep else [])"
| "replaceFirst pat rep (c # cs) =
     (if startsWith pat (c # cs) then rep @ drop (length pat) (c # cs)
      else c # replaceFirst pat rep cs)"

section \<open>The syntax tree\<close>

text \<open>
  The ESTree nodes the transforms build and inspect. A literal carries its value; the
  \<open>comments\<close> property of a statement, method or class is absent (\<open>None\<close>) when the
  printer library attached no comment to the node.
\<close>

datatype litval = LStr string | LNum int | LBool bool | LNull

datatype comment = CommentBlock string | CommentLine string

fun commentValue :: "comment \<Rightarrow> string" where
  "commentValue (CommentBlock v) = v"
| "commentValue (CommentLine v) = v"

datatype node =
    Identifier string
  | Literal litval
  | ThisExpression
  | Super
  | MemberExpression node node bool
  | CallExpression node "node list"
  | NewExpression node "node list"
  | UnaryExpression string node bool
  | BinaryExpression string node node
  | AssignmentExpression string node node
  | FunctionExpression "node list" node
  | BlockStatement "node list"
  | ReturnStatement node
  | IfStatement node node
  | ExpressionStatement "comment list option" node
  | VariableDeclarator node "node option"
  | VariableDeclaration "comment list option" string "node list"
  | MethodDefinition "comment list option" string node node bool
  | ClassDeclaration "comment list option" string "node option" "node list"
  | CommentNode comment
  | Program "node list"

text \<open>
  What a JavaScript run of a transform can end in besides a result: a
  \<^verbatim>\<open>TypeError\<close>
  (a property read from \<^verbatim>\<open>undefined\<close> or
  \<^verbatim>\<open>null\<close>) or the assertion of a node builder
  that was handed a field of the wrong type.
\<close>

datatype error = TypeError | BuilderError

text \<open>What a transform callback did to the path it was given.\<close>

datatype outcome = Untouched | Removed | Replaced node

text \<open>\<^verbatim>\<open>xs[i]\<close>, which is \<^verbatim>\<open>undefined\<close> out of range.\<close>

fun nth_opt :: "'a list \<Rightarrow> nat \<Rightarrow> 'a option" where
  "nth_opt [] i = None"
| "nth_opt (x # xs) 0 = Some x"
| "nth_opt (x # xs) (Suc i) = nth_opt xs i"

section \<open>Base calls: \<^verbatim>\<open>replaceBaseWithSuper\<close>\<close>

text \<open>
  \<^verbatim>\<open>replaceBaseWithSuper(path, moduleName)\<close>, the same in both
  utilities. The path
  is that of a \<^verbatim>\<open>Class.base(this, 'name', ...)\<close> call.
  \<^verbatim>\<open>args[1].type\<close> is a
  \<^verbatim>\<open>TypeError\<close> when there is no second argument;
  \<^verbatim>\<open>jscs.identifier\<close> asserts that
  its argument is a string.
\<close>

definition replaceBaseWithSuper :: "node \<Rightarrow> string \<Rightarrow> error + outcome" where
  "replaceBaseWithSuper call moduleName =
     (case call of
        CallExpression callee args \<Rightarrow>
          (case nth_opt args 1 of
             None \<Rightarrow> Inl TypeError
           | Some (Literal fnName) \<Rightarrow>
               (let superArgs = drop 2 args in
                if fnName = LStr ''constructor''
                then Inr (Replaced (CallExpression Super superArgs))
                else (case fnName of
                        LStr name \<Rightarrow>
                          Inr (Replaced (CallExpression
                                 (MemberExpression Super (Identifier name) False) superArgs))
                      | _ \<Rightarrow> Inl BuilderError))
           | Some _ \<Rightarrow> Inr Untouched)
      | _ \<Rightarrow> Inl TypeError)"

section \<open>Walking the tree\<close>

text \<open>
  The nodes of a tree in the order in which the query facility visits them: a node before
  its children, the children in field order.
  \<^verbatim>\<open>root.find(Type, filter)\<close> is the sublist
  of the nodes of that type that pass the filter.
\<close>

fun subnodes :: "node \<Rightarrow> node list" where
  "subnodes (Identifier x) = [Identifier x]"
| "subnodes (Literal v) = [Literal v]"
| "subnodes ThisExpression = [ThisExpression]"
| "subnodes Super = [Super]"
| "subnodes (MemberExpression a b c) = MemberExpression a b c # subnodes a @ subnodes b"
| "subnodes (CallExpression f as) = CallExpression f as # subnodes f @ concat (map subnodes as)"
| "subnodes (NewExpression f as) = NewExpression f as # subnodes f @ concat (map subnodes as)"
| "subnodes (UnaryExpression op a p) = UnaryExpression op a p # subnodes a"
| "subnodes (BinaryExpression op a b) = BinaryExpression op a b # subnodes a @ subnodes b"
| "subnodes (AssignmentExpression op a b) = AssignmentExpression op a b # subnodes a @ subnodes b"
| "subnodes (FunctionExpression ps b) =
     FunctionExpression ps b # concat (map subnodes ps) @ subnodes b"
| "subnodes (BlockStatement ss) = BlockStatement ss # concat (map subnodes ss)"
| "subnodes (ReturnStatement a) = ReturnStatement a # subnodes a"
| "subnodes (IfStatement t c) = IfStatement t c # subnodes t @ subnodes c"
| "subnodes (ExpressionStatement cs e) = ExpressionStatement cs e # subnodes e"
| "subnodes (VariableDeclarator i init) =
     VariableDeclarator i init # subnodes i @ (case init of None \<Rightarrow> [] | Some e \<Rightarrow> subnodes e)"
| "subnodes (VariableDeclaration cs k ds) = VariableDeclaration cs k ds # concat (map subnodes ds)"
| "subnodes (MethodDefinition cs k key v s) = MethodDefinition cs k key v s # subnodes key @ subnodes v"
| "subnodes (ClassDeclaration cs n sc ms) =
     ClassDeclaration cs n sc ms #
       (case sc of None \<Rightarrow> [] | Some e \<Rightarrow> subnodes e) @ concat (map subnodes ms)"
| "subnodes (CommentNode c) = [CommentNode c]"
| "subnodes (Program ss) = Program ss # concat (map subnodes ss)"

text \<open>
  \<^verbatim>\<open>root.find(...).forEach(path => jscs(path).replaceWith(...))\<close>
  where the callback
  replaces the matched node: the paths are collected before the first replacement, so a
  node is replaced where the rule applies and the search goes on into the children
  otherwise; what sits inside a replacement is not visited again.
\<close>

fun rewrite :: "(node \<Rightarrow> node option) \<Rightarrow> node \<Rightarrow> node" where
  "rewrite f (Identifier x) = (case f (Identifier x) of Some r \<Rightarrow> r | None \<Rightarrow> Identifier x)"
| "rewrite f (Literal v) = (case f (Literal v) of Some r \<Rightarrow> r | None \<Rightarrow> Literal v)"
| "rewrite f ThisExpression = (case f ThisExpression of Some r \<Rightarrow> r | None \<Rightarrow> ThisExpression)"
| "rewrite f Super = (case f Super of Some r \<Rightarrow> r | None \<Rightarrow> Super)"
| "rewrite f (MemberExpression a b c) =
     (case f (MemberExpression a b c) of Some r \<Rightarrow> r
      | None \<Rightarrow> MemberExpression (rewrite f a) (rewrite f b) c)"
| "rewrite f (CallExpression g as) =
     (case f (CallExpression g as) of Some r \<Rightarrow> r
      | None \<Rightarrow> CallExpression (rewrite f g) (map (rewrite f) as))"
| "rewrite f (NewExpression g as) =
     (case f (NewExpression g as) of Some r \<Rightarrow> r
      | None \<Rightarrow> NewExpression (rewrite f g) (map (rewrite f) as))"
| "rewrite f (UnaryExpression op a p) =
     (case f (UnaryExpression op a p) of Some r \<Rightarrow> r
      | None \<Rightarrow> UnaryExpression op (rewrite f a) p)"
| "rewrite f (BinaryExpression op a b) =
     (case f (BinaryExpression op a b) of Some r \<Rightarrow> r
      | None \<Rightarrow> BinaryExpression op (rewrite f a) (rewrite f b))"
| "rewrite f (AssignmentExpression op a b) =
     (case f (AssignmentExpression op a b) of Some r \<Rightarrow> r
      | None \<Rightarrow> AssignmentExpression op (rewrite f a) (rewrite f b))"
| "rewrite f (FunctionExpression ps b) =
     (case f (FunctionExpression ps b) of Some r \<Rightarrow> r
      | None \<Rightarrow> FunctionExpression (map (rewrite f) ps) (rewrite f b))"
| "rewrite f (BlockStatement ss) =
     (case f (BlockStatement ss) of Some r \<Rightarrow> r
      | None \<Rightarrow> BlockStatement (map (rewrite f) ss))"
| "rewrite f (ReturnStatement a) =
     (case f (ReturnStatement a) of Some r \<Rightarrow> r | None \<Rightarrow> ReturnStatement (rewrite f a))"
| "rewrite f (IfStatement t c) =
     (case f (IfStatement t c) of Some r \<Rightarrow> r
      | None \<Rightarrow> IfStatement (rewrite f t) (rewrite f c))"
| "rewrite f (ExpressionStatement cs e) =
     (case f (ExpressionStatement cs e) of Some r \<Rightarrow> r
      | None \<Rightarrow> ExpressionStatement cs (rewrite f e))"
| "rewrite f (VariableDeclarator i init) =
     (case f (VariableDeclarator i init) of Some r \<Rightarrow> r
      | None \<Rightarrow> VariableDeclarator (rewrite f i) (map_option (rewrite f) init))"
| "rewrite f (VariableDeclaration cs k ds) =
     (case f (VariableDeclaration cs k ds) of Some r \<Rightarrow> r
      | None \<Rightarrow> VariableDeclaration cs k (map (rewrite f) ds))"
| "rewrite f (MethodDefinition cs k key v s) =
     (case f (MethodDefinition cs k key v s) of Some r \<Rightarrow> r
      | None \<Rightarrow> MethodDefinition cs k (rewrite f key) (rewrite f v) s)"
| "rewrite f (ClassDeclaration cs n sc ms) =
     (case f (ClassDeclaration cs n sc ms) of Some r \<Rightarrow> r
      | None \<Rightarrow> ClassDeclaration cs n (map_option (rewrite f) sc) (map (rewrite f) ms))"
| "rewrite f (CommentNode c) = (case f (CommentNode c) of Some r \<Rightarrow> r | None \<Rightarrow> CommentNode c)"
| "rewrite f (Program ss) =
     (case f (Program ss) of Some r \<Rightarrow> r | None \<Rightarrow> Program (map (rewrite f) ss))"

text \<open>
  The paths of a tree in the same order, each as the value of the parent
  (\<^verbatim>\<open>path.parent.value\<close>) and the value of the path; \<open>p\<close> is the parent of
  the tree's root.
\<close>

fun subpaths :: "node \<Rightarrow> node \<Rightarrow> (node \<times> node) list" where
  "subpaths p (Identifier x) = [(p, Identifier x)]"
| "subpaths p (Literal v) = [(p, Literal v)]"
| "subpaths p ThisExpression = [(p, ThisExpression)]"
| "subpaths p Super = [(p, Super)]"
| "subpaths p (MemberExpression a b c) =
     (p, MemberExpression a b c) #
       subpaths (MemberExpression a b c) a @ subpaths (MemberExpression a b c) b"
| "subpaths p (CallExpression f as) =
     (p, CallExpression f as) #
       subpaths (CallExpression f as) f @ concat (map (subpaths (CallExpression f as)) as)"
| "subpaths p (NewExpression f as) =
     (p, NewExpression f as) #
       subpaths (NewExpression f as) f @ concat (map (subpaths (NewExpression f as)) as)"
| "subpaths p (UnaryExpression op a pre) =
     (p, UnaryExpression op a pre) # subpaths (UnaryExpression op a pre) a"
| "subpaths p (BinaryExpression op a b) =
     (p, BinaryExpression op a b) #
       subpaths (BinaryExpression op a b) a @ subpaths (BinaryExpression op a b) b"
| "subpaths p (AssignmentExpression op a b) =
     (p, AssignmentExpression op a b) #
       subpaths (AssignmentExpression op a b) a @ subpaths (AssignmentExpression op a b) b"
| "subpaths p (FunctionExpression ps b) =
     (p, FunctionExpression ps b) #
       concat (map (subpaths (FunctionExpression ps b)) ps) @ subpaths (FunctionExpression ps b) b"
| "subpaths p (BlockStatement ss) =
     (p, BlockStatement ss) # concat (map (subpaths (BlockStatement ss)) ss)"
| "subpaths p (ReturnStatement a) = (p, ReturnStatement a) # subpaths (ReturnStatement a) a"
| "subpaths p (IfStatement t c) =
     (p, IfStatement t c) # subpaths (IfStatement t c) t @ subpaths (IfStatement t c) c"
| "subpaths p (ExpressionStatement cs e) =
     (p, ExpressionStatement cs e) # subpaths (ExpressionStatement cs e) e"
| "subpaths p (VariableDeclarator i init) =
     (p, VariableDeclarator i init) #
       subpaths (VariableDeclarator i init) i @
       (case init of None \<Rightarrow> [] | Some e \<Rightarrow> subpaths (VariableDeclarator i init) e)"
| "subpaths p (VariableDeclaration cs k ds) =
     (p, VariableDeclaration cs k ds) # concat (map (subpaths (VariableDeclaration cs k ds)) ds)"
| "subpaths p (MethodDefinition cs k key v s) =
     (p, MethodDefinition cs k key v s) #
       subpaths (MethodDefinition cs k key v s) key @ subpaths (MethodDefinition cs k key v s) v"
| "subpaths p (ClassDeclaration cs n sc ms) =
     (p, ClassDeclaration cs n sc ms) #
       (case sc of None \<Rightarrow> [] | Some e \<Rightarrow> subpaths (ClassDeclaration cs n sc ms) e) @
       concat (map (subpaths (ClassDeclaration cs n sc ms)) ms)"
| "subpaths p (CommentNode c) = [(p, CommentNode c)]"
| "subpaths p (Program ss) = (p, Program ss) # concat (map (subpaths (Program ss)) ss)"


text \<open>The \<^verbatim>\<open>name\<close> property of a node: only identifiers have one.\<close>

fun nodeName :: "node \<Rightarrow> string option" where
  "nodeName (Identifier x) = Some x"
| "nodeName _ = None"

text \<open>The \<^verbatim>\<open>property\<close> property of a node: only member expressions have one.\<close>

fun nodeProperty :: "node \<Rightarrow> node option" where
  "nodeProperty (MemberExpression a b c) = Some b"
| "nodeProperty _ = None"

text \<open>The \<^verbatim>\<open>value\<close> property of a node: only literals have one.\<close>

fun nodeValue :: "node \<Rightarrow> litval option" where
  "nodeValue (Literal v) = Some v"
| "nodeValue _ = None"

text \<open>The \<^verbatim>\<open>comments\<close> property of a node.\<close>

fun nodeComments :: "node \<Rightarrow> comment list option" where
  "nodeComments (ExpressionStatement cs e) = cs"
| "nodeComments (VariableDeclaration cs k ds) = cs"
| "nodeComments (MethodDefinition cs k key v s) = cs"
| "nodeComments (ClassDeclaration cs n sc ms) = cs"
| "nodeComments _ = None"

text \<open>The \<^verbatim>\<open>type\<close> property of a node.\<close>

fun nodeType :: "node \<Rightarrow> string" where
  "nodeType (Identifier x) = ''Identifier''"
| "nodeType (Literal v) = ''Literal''"
| "nodeType ThisExpression = ''ThisExpression''"
| "nodeType Super = ''Super''"
| "nodeType (MemberExpression a b c) = ''MemberExpression''"
| "nodeType (CallExpression f as) = ''CallExpression''"
| "nodeType (NewExpression f as) = ''NewExpression''"
| "nodeType (UnaryExpression op a p) = ''UnaryExpression''"
| "nodeType (BinaryExpression op a b) = ''BinaryExpression''"
| "nodeType (AssignmentExpression op a b) = ''AssignmentExpression''"
| "nodeType (FunctionExpression ps b) = ''FunctionExpression''"
| "nodeType (BlockStatement ss) = ''BlockStatement''"
| "nodeType (ReturnStatement a) = ''ReturnStatement''"
| "nodeType (IfStatement t c) = ''IfStatement''"
| "nodeType (ExpressionStatement cs e) = ''ExpressionStatement''"
| "nodeType (VariableDeclarator i init) = ''VariableDeclarator''"
| "nodeType (VariableDeclaration cs k ds) = ''VariableDeclaration''"
| "nodeType (MethodDefinition cs k key v s) = ''MethodDefinition''"
| "nodeType (ClassDeclaration cs n sc ms) = ''ClassDeclaration''"
| "nodeType (CommentNode c) = ''CommentBlock''"
| "nodeType (Program ss) = ''Program''"

section \<open>Helpers of the migration library that the class utilities call\<close>

text \<open>
  Modelled from the spec: the helper \<^verbatim>\<open>memberExpressionToString\<close>
  (module \<^verbatim>\<open>jscs\<close>) gives
  the NamespacePath of a reference, "a dot-delimited, case-sensitive sequence of
  identifiers". \<open>pathOf\<close> is that path where the node is an identifier or a chain of
  plain member accesses.
\<close>

fun pathOf :: "node \<Rightarrow> string option" where
  "pathOf (Identifier x) = Some x"
| "pathOf (MemberExpression a b c) =
     (case (pathOf a, b, c) of
        (Some s, Identifier p, False) \<Rightarrow> Some (s @ ''.'' @ p)
      | _ \<Rightarrow> None)"
| "pathOf _ = None"


text \<open>
  Modelled from the spec: the filter of
  \<^verbatim>\<open>createFindMemberExprObject(path)\<close> is the
  matcher "is a member path exactly equal to X", here on member expressions.
\<close>

definition matchesPath :: "string \<Rightarrow> node \<Rightarrow> bool" where
  "matchesPath path n = (nodeType n = ''MemberExpression'' \<and> pathOf n = Some path)"

text \<open>
  Modelled from the spec: the filter of \<^verbatim>\<open>createFindCallFn(name)\<close>
  is the matcher "is a
  qualified call to X".
\<close>

definition isCallTo :: "string \<Rightarrow> node \<Rightarrow> bool" where
  "isCallTo name n = (case n of CallExpression f as \<Rightarrow> pathOf f = Some name | _ \<Rightarrow> False)"

text \<open>
  Modelled from the spec: \<^verbatim>\<open>createMemberExpression(path)\<close> and
  \<^verbatim>\<open>createCall(path, args)\<close>
  are the node constructors for a qualified reference and for a call of one.
\<close>

definition createMemberExpression :: "string \<Rightarrow> node" where
  "createMemberExpression path =
     (case splitOn (CHR ''.'') path of
        [] \<Rightarrow> Identifier []
      | x # xs \<Rightarrow> foldl (\<lambda>acc p. MemberExpression acc (Identifier p) False) (Identifier x) xs)"

definition createCall :: "string \<Rightarrow> node list \<Rightarrow> node" where
  "createCall path args = CallExpression (createMemberExpression path) args"

text \<open>
  Modelled from the spec: \<^verbatim>\<open>isPrivate(node)\<close> (module
  \<^verbatim>\<open>goog\<close>) is the "pure predicate
  over the AnnotationComment's tag set" for the visibility tag \<^verbatim>\<open>@private\<close>.
\<close>

definition isPrivate :: "node \<Rightarrow> bool" where
  "isPrivate n =
     (case nodeComments n of
        None \<Rightarrow> False
      | Some cs \<Rightarrow> list_ex (\<lambda>c. str_includes ''@private'' (commentValue c)) cs)"

section \<open>The Class Registry\<close>

text \<open>
  Modelled from the spec: the registry (module \<^verbatim>\<open>classregistry\<close>) is
  a "mapping from
  NamespacePath to exactly one produced class/interface declaration node";
  \<^verbatim>\<open>getClassNode(path)\<close> "returns the registered node or a not-found
  indication". The
  class object is shared by the registry and the tree; the model keeps it in the registry,
  where the utilities update it.
\<close>

record classDef =
  cd_comments :: "comment list option"
  cd_name :: string
  cd_superClass :: "node option"
  cd_body :: "node list"

type_synonym registry = "string \<Rightarrow> classDef option"

definition getClassNode :: "registry \<Rightarrow> string \<Rightarrow> classDef option" where
  "getClassNode reg moduleName = reg moduleName"

text \<open>
  The path of an assignment statement as the class utilities read it:
  \<^verbatim>\<open>path.parent.value.comments\<close>, and operator,
  \<^verbatim>\<open>left\<close> and \<^verbatim>\<open>right\<close> of
  \<^verbatim>\<open>path.value\<close>.
\<close>

record assignPath =
  ap_comments :: "comment list option"
  ap_operator :: string
  ap_left :: node
  ap_right :: node

definition stmtOf :: "assignPath \<Rightarrow> node" where
  "stmtOf p = ExpressionStatement (ap_comments p)
                (AssignmentExpression (ap_operator p) (ap_left p) (ap_right p))"

text \<open>
  \<^verbatim>\<open>node.property.name\<close>: a \<^verbatim>\<open>TypeError\<close>
  when the node has no \<^verbatim>\<open>property\<close>, and
  \<^verbatim>\<open>undefined\<close> (\<open>None\<close>) when the property is not an identifier.
\<close>

definition propertyNameOf :: "node \<Rightarrow> error + string option" where
  "propertyNameOf n =
     (case nodeProperty n of None \<Rightarrow> Inl TypeError | Some prop \<Rightarrow> Inr (nodeName prop))"

section \<open>Class utilities\<close>

subsection \<open>Adding members to the registered class\<close>

text \<open>
  \<^verbatim>\<open>addMethodToClass(moduleName, methodName, methodValue, isStatic, kind)\<close>.
  The base utility has no \<^verbatim>\<open>kind\<close> parameter and always builds a
  \<^verbatim>\<open>'method'\<close>, which
  is \<open>kind = None\<close> here. The result is the new registry and the method, or
  \<^verbatim>\<open>undefined\<close> (\<open>None\<close>) when no class is registered. The builder
  \<^verbatim>\<open>jscs.methodDefinition\<close> asserts that the key is a node, that the kind is one of
  \<^verbatim>\<open>constructor\<close>, \<^verbatim>\<open>method\<close>, \<^verbatim>\<open>get\<close> and \<^verbatim>\<open>set\<close>, and that the value is a function.
\<close>

definition addMethodToClass ::
  "registry \<Rightarrow> string \<Rightarrow> string option \<Rightarrow> node \<Rightarrow> bool \<Rightarrow> string option
     \<Rightarrow> error + (registry \<times> node option)" where
  "addMethodToClass reg moduleName methodName methodValue isStatic kind =
     (case getClassNode reg moduleName of
        None \<Rightarrow> Inr (reg, None)
      | Some classDef \<Rightarrow>
          (case methodName of
             None \<Rightarrow> Inl BuilderError
           | Some name \<Rightarrow>
               (let k = (case kind of None \<Rightarrow> ''method''
                         | Some k \<Rightarrow> if k = [] then ''method'' else k);
                    classMethod = MethodDefinition None k (Identifier name) methodValue isStatic
                in if (k = ''constructor'' \<or> k = ''method'' \<or> k = ''get'' \<or> k = ''set'')
                      \<and> nodeType methodValue = ''FunctionExpression''
                   then Inr (reg(moduleName \<mapsto>
                                  classDef\<lparr>cd_body := cd_body classDef @ [classMethod]\<rparr>),
                             Some classMethod)
                   else Inl BuilderError)))"

text \<open>
  \<^verbatim>\<open>classMethod.comments = cs\<close> for the method that
  \<^verbatim>\<open>addMethodToClass\<close> has just pushed:
  it is the last member of the class body.
\<close>

fun withComments :: "comment list option \<Rightarrow> node \<Rightarrow> node" where
  "withComments cs (MethodDefinition old k key v s) = MethodDefinition cs k key v s"
| "withComments cs n = n"

definition setMethodComments :: "registry \<Rightarrow> string \<Rightarrow> comment list option \<Rightarrow> registry" where
  "setMethodComments reg moduleName cs =
     (case reg moduleName of
        None \<Rightarrow> reg
      | Some classDef \<Rightarrow>
          (case rev (cd_body classDef) of
             [] \<Rightarrow> reg
           | m # ms \<Rightarrow> reg(moduleName \<mapsto> classDef\<lparr>cd_body := rev ms @ [withComments cs m]\<rparr>)))"

text \<open>\<^verbatim>\<open>addStaticGetToClass(path, moduleName)\<close>, the same in both utilities.\<close>

definition addStaticGetToClass ::
  "registry \<Rightarrow> assignPath \<Rightarrow> string \<Rightarrow> error + (registry \<times> outcome)" where
  "addStaticGetToClass reg p moduleName =
     (case getClassNode reg moduleName of
        None \<Rightarrow> Inr (reg, Untouched)
      | Some classDef \<Rightarrow>
          (case propertyNameOf (ap_left p) of
             Inl e \<Rightarrow> Inl e
           | Inr None \<Rightarrow> Inl BuilderError
           | Inr (Some propertyName) \<Rightarrow>
               (let getBlock = BlockStatement [ReturnStatement (ap_right p)];
                    getFn = FunctionExpression [] getBlock;
                    cs = (case ap_comments p of
                            Some (c # rest) \<Rightarrow>
                              Some [CommentBlock (replaceFirst (NL # '' * @const'') [] (commentValue c))]
                          | _ \<Rightarrow> None);
                    staticGet = MethodDefinition cs ''get'' (Identifier propertyName) getFn True
                in Inr (reg(moduleName \<mapsto> classDef\<lparr>cd_body := cd_body classDef @ [staticGet]\<rparr>),
                        Removed))))"

subsection \<open>Prototype members\<close>

text \<open>\<^verbatim>\<open>replaceFQClass(node, moduleName)\<close>: \<^verbatim>\<open>node.object\<close> becomes the class name.\<close>

definition replaceFQClass :: "registry \<Rightarrow> node \<Rightarrow> string \<Rightarrow> node" where
  "replaceFQClass reg n moduleName =
     (case getClassNode reg moduleName of
        None \<Rightarrow> n
      | Some classDef \<Rightarrow>
          (case n of
             MemberExpression a b c \<Rightarrow> MemberExpression (Identifier (cd_name classDef)) b c
           | _ \<Rightarrow> n))"

definition showName :: "string option \<Rightarrow> string" where
  "showName n = (case n of None \<Rightarrow> ''undefined'' | Some s \<Rightarrow> s)"

text \<open>
  \<^verbatim>\<open>convertPrototypeExpression(path, moduleName)\<close> of the base
  utility, which the
  extended utility calls \<^verbatim>\<open>convertPrototypeAssignment\<close>. The result
  is the registry, what
  happened to the assignment and the warnings logged.
\<close>

definition convertPrototypeAssignment ::
  "registry \<Rightarrow> assignPath \<Rightarrow> string \<Rightarrow> error + (registry \<times> outcome \<times> string list)" where
  "convertPrototypeAssignment reg p moduleName =
     (case propertyNameOf (ap_left p) of
        Inl e \<Rightarrow> Inl e
      | Inr propertyName \<Rightarrow>
          (let valueType = nodeType (ap_right p) in
           if valueType = ''FunctionExpression'' then
             (case addMethodToClass reg moduleName propertyName (ap_right p) False None of
                Inl e \<Rightarrow> Inl e
              | Inr (reg1, None) \<Rightarrow> Inl TypeError
              | Inr (reg1, Some classMethod) \<Rightarrow>
                  Inr (setMethodComments reg1 moduleName (ap_comments p), Removed, []))
           else if valueType = ''MemberExpression'' then
             (case getClassNode reg moduleName of
                None \<Rightarrow> Inr (reg, Untouched, [])
              | Some classDef \<Rightarrow>
                  (case ap_left p of
                     MemberExpression lo lp lc \<Rightarrow>
                       Inr (reg,
                            Replaced (ExpressionStatement (ap_comments p)
                              (AssignmentExpression (ap_operator p)
                                 (MemberExpression (replaceFQClass reg lo moduleName) lp lc)
                                 (ap_right p))),
                            [])
                   | _ \<Rightarrow> Inl TypeError))
           else
             Inr (reg, Untouched,
                  [''In '' @ moduleName @ '': Unable to convert prototype expression ''
                     @ showName propertyName @ '' of type '' @ valueType @ ''.''])))"

subsection \<open>Inheritance and singletons\<close>

text \<open>
  \<^verbatim>\<open>moveInheritsToClass(path, moduleName)\<close>, the same in both
  utilities; \<open>args\<close>
  are \<^verbatim>\<open>path.value.arguments\<close>.
\<close>

definition moveInheritsToClass :: "registry \<Rightarrow> node list \<Rightarrow> string \<Rightarrow> registry \<times> outcome" where
  "moveInheritsToClass reg args moduleName =
     (case getClassNode reg moduleName of
        None \<Rightarrow> (reg, Untouched)
      | Some classDef \<Rightarrow>
          (reg(moduleName \<mapsto> classDef\<lparr>cd_superClass := nth_opt args 1\<rparr>), Removed))"

text \<open>
  \<^verbatim>\<open>moveSingletonToClass(path, moduleName)\<close> of the extended
  utility. The outcome is
  that of \<^verbatim>\<open>path.parent\<close>, the statement of the
  \<^verbatim>\<open>goog.addSingletonGetter\<close> call.
\<close>

definition moveSingletonToClass :: "registry \<Rightarrow> string \<Rightarrow> error + (registry \<times> outcome)" where
  "moveSingletonToClass reg moduleName =
     (case getClassNode reg moduleName of
        None \<Rightarrow> Inr (reg, Untouched)
      | Some classDef \<Rightarrow>
          (let className = cd_name classDef;
               instanceIdentifier = Identifier ''instance'';
               varDeclarator = VariableDeclarator instanceIdentifier None;
               instanceComment = joinLines [''*'', '' * Global '' @ className @ '' instance.'',
                                   '' * @type {'' @ className @ ''|undefined}'', '' ''];
               varDeclaration = VariableDeclaration (Some [CommentBlock instanceComment]) ''let''
                                  [varDeclarator];
               getInstanceFn = FunctionExpression [] (BlockStatement [
                  IfStatement (UnaryExpression ''!'' instanceIdentifier True)
                    (BlockStatement [ExpressionStatement None
                       (AssignmentExpression ''='' instanceIdentifier
                          (NewExpression (Identifier className) []))]),
                  ReturnStatement instanceIdentifier]);
               getInstanceComments = joinLines [''*'', '' * Get the global instance.'',
                                       '' * @return {!'' @ className @ ''}'', '' '']
           in (case addMethodToClass reg moduleName (Some ''getInstance'') getInstanceFn True None of
                 Inl e \<Rightarrow> Inl e
               | Inr (reg1, None) \<Rightarrow> Inl TypeError
               | Inr (reg1, Some classMethod) \<Rightarrow>
                   Inr (setMethodComments reg1 moduleName (Some [CommentBlock getInstanceComments]),
                        Replaced varDeclaration))))"

text \<open>\<^verbatim>\<open>moveSingletonToClass(path, moduleName)\<close> of the base utility.\<close>

definition moveSingletonToClass_utils :: "registry \<Rightarrow> string \<Rightarrow> error + (registry \<times> outcome)" where
  "moveSingletonToClass_utils reg moduleName =
     (case getClassNode reg moduleName of
        None \<Rightarrow> Inr (reg, Untouched)
      | Some classDef \<Rightarrow>
          (let className = cd_name classDef;
               newExpression = NewExpression (Identifier className) [];
               varDeclarator = VariableDeclarator (Identifier ''instance'') (Some newExpression);
               instanceComment = joinLines [''*'', '' * Global '' @ className @ '' instance.'',
                                   '' * @type {'' @ className @ ''}'', '' ''];
               varDeclaration = VariableDeclaration (Some [CommentBlock instanceComment]) ''const''
                                  [varDeclarator];
               getInstanceBlock = BlockStatement [ReturnStatement (Identifier ''instance'')];
               getInstanceFn = FunctionExpression [] getInstanceBlock;
               getInstanceComments = joinLines [''*'', '' * Get the global instance.'',
                                       '' * @return {'' @ className @ ''}'', '' '']
           in (case addMethodToClass reg moduleName (Some ''getInstance'') getInstanceFn True None of
                 Inl e \<Rightarrow> Inl e
               | Inr (reg1, None) \<Rightarrow> Inl TypeError
               | Inr (reg1, Some classMethod) \<Rightarrow>
                   Inr (setMethodComments reg1 moduleName (Some [CommentBlock getInstanceComments]),
                        Replaced varDeclaration))))"

subsection \<open>Stored superclass references\<close>


text \<open>
  \<^verbatim>\<open>paths.forEach(callback)\<close> for a callback that may throw: the
  callbacks run in order
  and the first error ends the run.
\<close>

fun forEach :: "('p \<Rightarrow> error + 'r) \<Rightarrow> 'p list \<Rightarrow> error + 'r list" where
  "forEach f [] = Inr []"
| "forEach f (p # ps) =
     (case f p of
        Inl e \<Rightarrow> Inl e
      | Inr r \<Rightarrow> (case forEach f ps of Inl e \<Rightarrow> Inl e | Inr rs \<Rightarrow> Inr (r # rs)))"

subsection \<open>Static properties\<close>

definition removeAt :: "nat \<Rightarrow> 'a list \<Rightarrow> 'a list" where
  "removeAt i xs = take i xs @ drop (Suc i) xs"

text \<open>What an outcome for the statement at index \<open>i\<close> does to the program body.\<close>

fun applyOutcome :: "outcome \<Rightarrow> nat \<Rightarrow> node list \<Rightarrow> node list" where
  "applyOutcome Untouched i body = body"
| "applyOutcome Removed i body = removeAt i body"
| "applyOutcome (Replaced n) i body = body[i := n]"

fun isClassNamed :: "string \<Rightarrow> node \<Rightarrow> bool" where
  "isClassNamed className (ClassDeclaration cs n sc ms) = (n = className)"
| "isClassNamed className _ = False"

text \<open>
  \<^verbatim>\<open>insertBeforeClass(root, className, node)\<close>: the node is inserted
  before every class
  declaration of that name, in whatever statement list it stands.
\<close>

fun insertBeforeClass :: "string \<Rightarrow> node \<Rightarrow> node \<Rightarrow> node" where
  "insertBeforeClass cn new (Identifier x) = Identifier x"
| "insertBeforeClass cn new (Literal v) = Literal v"
| "insertBeforeClass cn new ThisExpression = ThisExpression"
| "insertBeforeClass cn new Super = Super"
| "insertBeforeClass cn new (MemberExpression a b c) =
     MemberExpression (insertBeforeClass cn new a) (insertBeforeClass cn new b) c"
| "insertBeforeClass cn new (CallExpression f as) =
     CallExpression (insertBeforeClass cn new f) (map (insertBeforeClass cn new) as)"
| "insertBeforeClass cn new (NewExpression f as) =
     NewExpression (insertBeforeClass cn new f) (map (insertBeforeClass cn new) as)"
| "insertBeforeClass cn new (UnaryExpression op a p) = UnaryExpression op (insertBeforeClass cn new a) p"
| "insertBeforeClass cn new (BinaryExpression op a b) =
     BinaryExpression op (insertBeforeClass cn new a) (insertBeforeClass cn new b)"
| "insertBeforeClass cn new (AssignmentExpression op a b) =
     AssignmentExpression op (insertBeforeClass cn new a) (insertBeforeClass cn new b)"
| "insertBeforeClass cn new (FunctionExpression ps b) =
     FunctionExpression (map (insertBeforeClass cn new) ps) (insertBeforeClass cn new b)"
| "insertBeforeClass cn new (BlockStatement ss) =
     BlockStatement (concat (map (\<lambda>s. (if isClassNamed cn s then [new] else [])
                                        @ [insertBeforeClass cn new s]) ss))"
| "insertBeforeClass cn new (ReturnStatement a) = ReturnStatement (insertBeforeClass cn new a)"
| "insertBeforeClass cn new (IfStatement t c) =
     IfStatement (insertBeforeClass cn new t) (insertBeforeClass cn new c)"
| "insertBeforeClass cn new (ExpressionStatement cs e) = ExpressionStatement cs (insertBeforeClass cn new e)"
| "insertBeforeClass cn new (VariableDeclarator i init) =
     VariableDeclarator (insertBeforeClass cn new i) (map_option (insertBeforeClass cn new) init)"
| "insertBeforeClass cn new (VariableDeclaration cs k ds) =
     VariableDeclaration cs k (map (insertBeforeClass cn new) ds)"
| "insertBeforeClass cn new (MethodDefinition cs k key v s) =
     MethodDefinition cs k (insertBeforeClass cn new key) (insertBeforeClass cn new v) s"
| "insertBeforeClass cn new (ClassDeclaration cs n sc ms) =
     ClassDeclaration cs n (map_option (insertBeforeClass cn new) sc) (map (insertBeforeClass cn new) ms)"
| "insertBeforeClass cn new (CommentNode c) = CommentNode c"
| "insertBeforeClass cn new (Program ss) =
     Program (concat (map (\<lambda>s. (if isClassNamed cn s then [new] else [])
                                 @ [insertBeforeClass cn new s]) ss))"

text \<open>The body of a program node.\<close>

fun programBody :: "node \<Rightarrow> node list" where
  "programBody (Program ss) = ss"
| "programBody _ = []"

text \<open>
  \<^verbatim>\<open>root.find(jscs.MemberExpression, createFindMemberExprObject(path)).forEach(path =>
  jscs(path).replaceWith(replacement))\<close>, on every statement of the program.
\<close>

definition replaceReferences :: "string \<Rightarrow> node \<Rightarrow> node list \<Rightarrow> node list" where
  "replaceReferences path replacement body =
     map (rewrite (\<lambda>n. if matchesPath path n then Some replacement else None)) body"

text \<open>
  \<^verbatim>\<open>convertPrivateClassPropertyToConst(root, path, moduleName)\<close> of
  the base utility. \<open>body\<close> is the body of the program and \<open>i\<close> the
  index in it of
  \<^verbatim>\<open>path.parent\<close>, the statement of the assignment. The result is
  the new program body.
  The statement is taken out before the declaration is inserted; the source does it after,
  which gives the same body.
\<close>

definition convertPrivateClassPropertyToConst ::
  "registry \<Rightarrow> node list \<Rightarrow> nat \<Rightarrow> assignPath \<Rightarrow> string \<Rightarrow> error + node list" where
  "convertPrivateClassPropertyToConst reg body i p moduleName =
     (case propertyNameOf (ap_left p) of
        Inl e \<Rightarrow> Inl e
      | Inr None \<Rightarrow> Inl BuilderError
      | Inr (Some propertyName) \<Rightarrow>
          (let varDeclarator = VariableDeclarator (Identifier propertyName) (Some (ap_right p)) in
           case ap_comments p of
             None \<Rightarrow> Inl TypeError
           | Some cs \<Rightarrow>
               (case rev cs of
                  [] \<Rightarrow> Inl TypeError
                | c # rest \<Rightarrow>
                    (let newComment = joinLines
                           (filter (\<lambda>l. \<not> (trim l = ''* @private'' \<or> trim l = ''* @const''))
                              (splitLines (commentValue c)));
                         varDeclaration = VariableDeclaration (Some [CommentBlock newComment]) ''const''
                                            [varDeclarator];
                         body1 =
                           (case getClassNode reg moduleName of
                              Some classDef \<Rightarrow>
                                if filter (matchesPath moduleName) (subnodes varDeclarator) \<noteq> []
                                then removeAt i body @ [varDeclaration]
                                else programBody
                                       (insertBeforeClass (cd_name classDef) varDeclaration
                                          (Program (removeAt i body)))
                            | None \<Rightarrow> body[i := varDeclaration])
                     in Inr (replaceReferences (moduleName @ ''.'' @ propertyName)
                               (Identifier propertyName) body1)))))"

text \<open>
  \<^verbatim>\<open>convertStaticProperty(root, path, moduleName)\<close> of the base
  utility; the result
  is the registry and the new program body.
\<close>

definition convertStaticProperty_utils ::
  "registry \<Rightarrow> node list \<Rightarrow> nat \<Rightarrow> assignPath \<Rightarrow> string \<Rightarrow> error + (registry \<times> node list)" where
  "convertStaticProperty_utils reg body i p moduleName =
     (if nodeType (ap_right p) = ''FunctionExpression'' then
        (case propertyNameOf (ap_left p) of
           Inl e \<Rightarrow> Inl e
         | Inr propertyName \<Rightarrow>
             (case addMethodToClass reg moduleName propertyName (ap_right p) True None of
                Inl e \<Rightarrow> Inl e
              | Inr (reg1, None) \<Rightarrow> Inl TypeError
              | Inr (reg1, Some classMethod) \<Rightarrow>
                  Inr (setMethodComments reg1 moduleName (ap_comments p), removeAt i body)))
      else if isPrivate (stmtOf p) then
        (case convertPrivateClassPropertyToConst reg body i p moduleName of
           Inl e \<Rightarrow> Inl e
         | Inr body1 \<Rightarrow> Inr (reg, body1))
      else
        (case addStaticGetToClass reg p moduleName of
           Inl e \<Rightarrow> Inl e
         | Inr (reg1, out) \<Rightarrow> Inr (reg1, applyOutcome out i body)))"

text \<open>\<^verbatim>\<open>convertStaticProperty(root, path, moduleName)\<close> of the extended utility.\<close>

definition convertStaticProperty ::
  "registry \<Rightarrow> assignPath \<Rightarrow> string \<Rightarrow> error + (registry \<times> outcome)" where
  "convertStaticProperty reg p moduleName =
     (if nodeType (ap_right p) = ''FunctionExpression'' then
        (case propertyNameOf (ap_left p) of
           Inl e \<Rightarrow> Inl e
         | Inr propertyName \<Rightarrow>
             (case addMethodToClass reg moduleName propertyName (ap_right p) True None of
                Inl e \<Rightarrow> Inl e
              | Inr (reg1, None) \<Rightarrow> Inl TypeError
              | Inr (reg1, Some classMethod) \<Rightarrow>
                  Inr (setMethodComments reg1 moduleName (ap_comments p), Removed)))
      else Inr (reg, Untouched))"

subsection \<open>Namespace properties and reassignment detection\<close>

text \<open>
  The filter of \<^verbatim>\<open>isReassigned\<close>: an assignment whose left side is a
  member expression
  with the module's path as object and \<open>propName\<close> as property name.
\<close>

fun isAssignmentTo :: "string \<Rightarrow> string \<Rightarrow> node \<Rightarrow> bool" where
  "isAssignmentTo moduleName propName (AssignmentExpression op (MemberExpression a b c) r) =
     (pathOf a = Some moduleName \<and> nodeName b = Some propName)"
| "isAssignmentTo moduleName propName _ = False"

text \<open>The assignment sites of \<^verbatim>\<open>moduleName.propName\<close> in a tree.\<close>

definition assignmentSites :: "node \<Rightarrow> string \<Rightarrow> string \<Rightarrow> node list" where
  "assignmentSites root moduleName propName =
     filter (isAssignmentTo moduleName propName) (subnodes root)"

text \<open>\<^verbatim>\<open>isReassigned(root, moduleName, propName)\<close> of the extended utility.\<close>

definition isReassigned :: "node \<Rightarrow> string \<Rightarrow> string \<Rightarrow> bool" where
  "isReassigned root moduleName propName = (length (assignmentSites root moduleName propName) > 1)"

text \<open>
  \<^verbatim>\<open>convertNamespaceExpression(root, path, moduleName)\<close> of the
  extended utility.
  \<open>body\<close> is the body of the program, \<open>stmt\<close> is
  \<^verbatim>\<open>path.value\<close>, an expression
  statement, and \<open>i\<close> its index in the body. The result is the new program body.
\<close>

definition convertNamespaceExpression ::
  "node list \<Rightarrow> nat \<Rightarrow> node \<Rightarrow> string \<Rightarrow> error + node list" where
  "convertNamespaceExpression body i stmt moduleName =
     (case stmt of
        ExpressionStatement cs expression \<Rightarrow>
          (let isAssignment = (nodeType expression = ''AssignmentExpression'');
               nameOrError = (case expression of
                                AssignmentExpression op l r \<Rightarrow> propertyNameOf l
                              | _ \<Rightarrow> propertyNameOf expression);
               right = (case expression of AssignmentExpression op l r \<Rightarrow> Some r | _ \<Rightarrow> None)
           in case nameOrError of
                Inl e \<Rightarrow> Inl e
              | Inr propName \<Rightarrow>
                  if isPrivate stmt then
                    (case propName of
                       None \<Rightarrow> Inl BuilderError
                     | Some pn \<Rightarrow>
                         (let kind = (if isAssignment \<and> \<not> isReassigned (Program body) moduleName pn
                                      then ''const'' else ''let'');
                              varDeclarator = VariableDeclarator (Identifier pn) right
                          in case cs of
                               None \<Rightarrow> Inl TypeError
                             | Some cl \<Rightarrow>
                                 (case rev cl of
                                    [] \<Rightarrow> Inl TypeError
                                  | c # rest \<Rightarrow>
                                      (let newComment = replaceFirst (NL # '' * @private'') []
                                                          (commentValue c);
                                           varDeclaration = VariableDeclaration
                                             (Some [CommentBlock newComment]) kind [varDeclarator]
                                       in Inr (replaceReferences (moduleName @ ''.'' @ pn)
                                                 (Identifier pn) (body[i := varDeclaration]))))))
                  else
                    (let memberExpr = createMemberExpression (''exports.'' @ showName propName);
                         stmt1 = (case expression of
                                    AssignmentExpression op l r \<Rightarrow>
                                      ExpressionStatement cs (AssignmentExpression op memberExpr r)
                                  | MemberExpression a b c \<Rightarrow>
                                      ExpressionStatement cs (MemberExpression (Identifier ''exports'') b c)
                                  | _ \<Rightarrow> stmt)
                     in Inr (replaceReferences (moduleName @ ''.'' @ showName propName)
                               memberExpr (body[i := stmt1]))))
      | _ \<Rightarrow> Inl TypeError)"

subsection \<open>Module declarations\<close>

text \<open>The filter of the query: a call of \<^verbatim>\<open>goog.provide\<close>.\<close>

definition isProvideCall :: "node \<Rightarrow> bool" where
  "isProvideCall n = isCallTo ''goog.provide'' n"

text \<open>A statement that is a call of \<^verbatim>\<open>goog.provide\<close>.\<close>

definition isProvideStmt :: "node \<Rightarrow> bool" where
  "isProvideStmt s = (case s of ExpressionStatement cs e \<Rightarrow> isCallTo ''goog.provide'' e | _ \<Rightarrow> False)"

definition legacyNamespaceStmt :: node where
  "legacyNamespaceStmt =
     ExpressionStatement None (createCall ''goog.module.declareLegacyNamespace'' [])"

definition googModuleStmt :: "comment list option \<Rightarrow> node list \<Rightarrow> node" where
  "googModuleStmt oldComments args =
     ExpressionStatement (map_option (map (\<lambda>c. CommentBlock (commentValue c))) oldComments)
       (createCall ''goog.module'' args)"

text \<open>
  \<^verbatim>\<open>jscs(path).remove()\<close> for the first \<^verbatim>\<open>goog.provide\<close> call that is left in the
  tree, where the call is the expression of a statement that stands in a statement list
  (the body of the program or of a block, at any depth): pruning the call leaves its
  statement without an expression, and the statement is pruned from its list. The result
  is \<open>None\<close> when the tree has no such statement. The paths of the query are processed
  in the order of the tree, so the path at hand is the first call that is left.
\<close>

fun pruneProvide :: "node \<Rightarrow> node option"
  and pruneStmts :: "node list \<Rightarrow> node list option"
  and pruneNodes :: "node list \<Rightarrow> node list option" where
  "pruneProvide (Identifier x) = None"
| "pruneProvide (Literal v) = None"
| "pruneProvide ThisExpression = None"
| "pruneProvide Super = None"
| "pruneProvide (MemberExpression a b c) =
     (case pruneProvide a of
        Some a1 \<Rightarrow> Some (MemberExpression a1 b c)
      | None \<Rightarrow> map_option (\<lambda>b1. MemberExpression a b1 c) (pruneProvide b))"
| "pruneProvide (CallExpression f as) =
     (case pruneProvide f of
        Some f1 \<Rightarrow> Some (CallExpression f1 as)
      | None \<Rightarrow> map_option (CallExpression f) (pruneNodes as))"
| "pruneProvide (NewExpression f as) =
     (case pruneProvide f of
        Some f1 \<Rightarrow> Some (NewExpression f1 as)
      | None \<Rightarrow> map_option (NewExpression f) (pruneNodes as))"
| "pruneProvide (UnaryExpression op a pre) =
     map_option (\<lambda>a1. UnaryExpression op a1 pre) (pruneProvide a)"
| "pruneProvide (BinaryExpression op a b) =
     (case pruneProvide a of
        Some a1 \<Rightarrow> Some (BinaryExpression op a1 b)
      | None \<Rightarrow> map_option (BinaryExpression op a) (pruneProvide b))"
| "pruneProvide (AssignmentExpression op a b) =
     (case pruneProvide a of
        Some a1 \<Rightarrow> Some (AssignmentExpression op a1 b)
      | None \<Rightarrow> map_option (AssignmentExpression op a) (pruneProvide b))"
| "pruneProvide (FunctionExpression ps b) =
     (case pruneNodes ps of
        Some ps1 \<Rightarrow> Some (FunctionExpression ps1 b)
      | None \<Rightarrow> map_option (FunctionExpression ps) (pruneProvide b))"
| "pruneProvide (BlockStatement ss) = map_option BlockStatement (pruneStmts ss)"
| "pruneProvide (ReturnStatement a) = map_option ReturnStatement (pruneProvide a)"
| "pruneProvide (IfStatement t c) =
     (case pruneProvide t of
        Some t1 \<Rightarrow> Some (IfStatement t1 c)
      | None \<Rightarrow> map_option (IfStatement t) (pruneProvide c))"
| "pruneProvide (ExpressionStatement cs e) = map_option (ExpressionStatement cs) (pruneProvide e)"
| "pruneProvide (VariableDeclarator i init) =
     (case pruneProvide i of
        Some i1 \<Rightarrow> Some (VariableDeclarator i1 init)
      | None \<Rightarrow>
          (case init of
             None \<Rightarrow> None
           | Some e \<Rightarrow> map_option (\<lambda>e1. VariableDeclarator i (Some e1)) (pruneProvide e)))"
| "pruneProvide (VariableDeclaration cs k ds) = map_option (VariableDeclaration cs k) (pruneNodes ds)"
| "pruneProvide (MethodDefinition cs k key v s) =
     (case pruneProvide key of
        Some key1 \<Rightarrow> Some (MethodDefinition cs k key1 v s)
      | None \<Rightarrow> map_option (\<lambda>v1. MethodDefinition cs k key v1 s) (pruneProvide v))"
| "pruneProvide (ClassDeclaration cs n sc ms) =
     (case (case sc of None \<Rightarrow> None | Some e \<Rightarrow> pruneProvide e) of
        Some e1 \<Rightarrow> Some (ClassDeclaration cs n (Some e1) ms)
      | None \<Rightarrow> map_option (ClassDeclaration cs n sc) (pruneNodes ms))"
| "pruneProvide (CommentNode c) = None"
| "pruneProvide (Program ss) = map_option Program (pruneStmts ss)"
| "pruneStmts [] = None"
| "pruneStmts (s # ss) =
     (if isProvideStmt s then Some ss
      else (case pruneProvide s of
              Some s1 \<Rightarrow> Some (s1 # ss)
            | None \<Rightarrow> map_option ((#) s) (pruneStmts ss)))"
| "pruneNodes [] = None"
| "pruneNodes (n # ns) =
     (case pruneProvide n of
        Some n1 \<Rightarrow> Some (n1 # ns)
      | None \<Rightarrow> map_option ((#) n) (pruneNodes ns))"

text \<open>
  The trees on which pruning is modelled: every \<^verbatim>\<open>goog.provide\<close> call is the expression
  of a statement that stands in a statement list, and that statement holds no other
  \<^verbatim>\<open>goog.provide\<close> call. Pruning a call in another position takes an element or a field
  out of its parent, which the syntax tree of the model cannot express.
\<close>

fun prunable :: "node \<Rightarrow> bool"
  and prunableStmts :: "node list \<Rightarrow> bool"
  and prunableNodes :: "node list \<Rightarrow> bool" where
  "prunable (Identifier x) = True"
| "prunable (Literal v) = True"
| "prunable ThisExpression = True"
| "prunable Super = True"
| "prunable (MemberExpression a b c) = (prunable a \<and> prunable b)"
| "prunable (CallExpression f as) =
     (\<not> isProvideCall (CallExpression f as) \<and> prunable f \<and> prunableNodes as)"
| "prunable (NewExpression f as) = (prunable f \<and> prunableNodes as)"
| "prunable (UnaryExpression op a pre) = prunable a"
| "prunable (BinaryExpression op a b) = (prunable a \<and> prunable b)"
| "prunable (AssignmentExpression op a b) = (prunable a \<and> prunable b)"
| "prunable (FunctionExpression ps b) = (prunableNodes ps \<and> prunable b)"
| "prunable (BlockStatement ss) = prunableStmts ss"
| "prunable (ReturnStatement a) = prunable a"
| "prunable (IfStatement t c) = (prunable t \<and> prunable c)"
| "prunable (ExpressionStatement cs e) = prunable e"
| "prunable (VariableDeclarator i init) =
     (prunable i \<and> (case init of None \<Rightarrow> True | Some e \<Rightarrow> prunable e))"
| "prunable (VariableDeclaration cs k ds) = prunableNodes ds"
| "prunable (MethodDefinition cs k key v s) = (prunable key \<and> prunable v)"
| "prunable (ClassDeclaration cs n sc ms) =
     ((case sc of None \<Rightarrow> True | Some e \<Rightarrow> prunable e) \<and> prunableNodes ms)"
| "prunable (CommentNode c) = True"
| "prunable (Program ss) = prunableStmts ss"
| "prunableStmts [] = True"
| "prunableStmts (s # ss) =
     ((if isProvideStmt s then length (filter isProvideCall (subnodes s)) = 1 else prunable s)
      \<and> prunableStmts ss)"
| "prunableNodes [] = True"
| "prunableNodes (n # ns) = (prunable n \<and> prunableNodes ns)"

text \<open>
  The callback of \<^verbatim>\<open>replaceProvidesWithModules\<close> in the extended utility, run over the
  paths of the \<^verbatim>\<open>goog.provide\<close> calls, each with the value of its parent: \<open>idx\<close> is
  the index of the call among the calls found, \<open>modules\<close> the names collected so far
  and \<open>body\<close> the program body. \<^verbatim>\<open>args[0].value\<close> is a \<^verbatim>\<open>TypeError\<close> for a call
  without arguments and \<^verbatim>\<open>undefined\<close> (\<open>None\<close>) for an argument that is not a
  literal.
\<close>

fun provideLoop ::
  "nat \<Rightarrow> (node \<times> node) list \<Rightarrow> litval option list \<Rightarrow> node list
     \<Rightarrow> error + (litval option list \<times> node list)" where
  "provideLoop idx [] modules body = Inr (modules, body)"
| "provideLoop idx ((parent, call) # ps) modules body =
     (case call of
        CallExpression f args \<Rightarrow>
          (case args of
             [] \<Rightarrow> Inl TypeError
           | a0 # as \<Rightarrow>
               (let modules1 = modules @ [nodeValue a0];
                    oldComments = nodeComments parent;
                    body1 = (case pruneStmts body of None \<Rightarrow> body | Some b \<Rightarrow> b);
                    body2 = (if idx = 0 then legacyNamespaceStmt # body1 else body1)
                in provideLoop (Suc idx) ps modules1 (googModuleStmt oldComments args # body2)))
      | _ \<Rightarrow> Inl TypeError)"

text \<open>The paths that \<^verbatim>\<open>root.find(jscs.CallExpression, findFn)\<close> finds in a program.\<close>

definition providePaths :: "node list \<Rightarrow> (node \<times> node) list" where
  "providePaths body =
     filter (\<lambda>(parent, n). isProvideCall n) (concat (map (subpaths (Program body)) body))"

text \<open>
  \<^verbatim>\<open>replaceProvidesWithModules(root)\<close> of the extended utility, from the body of the
  program to the list of module names and the new body; \<open>None\<close> for a program on
  which pruning is not modelled.
\<close>

definition replaceProvidesWithModules ::
  "node list \<Rightarrow> (error + (litval option list \<times> node list)) option" where
  "replaceProvidesWithModules body =
     (if prunableStmts body then Some (provideLoop 0 (providePaths body) [] body) else None)"

text \<open>
  The callback of \<^verbatim>\<open>replaceProvidesWithModules\<close> in the base utility, for the call at
  index \<open>idx\<close> of the calls found: the module name it pushes, the call that replaces the
  path where it stands, and whether it hands \<^verbatim>\<open>path.parent\<close> to
  \<^verbatim>\<open>addLegacyNamespace\<close>, a helper of the module \<^verbatim>\<open>goog\<close> that is not in src.
\<close>

definition provideToModule_utils :: "nat \<Rightarrow> node \<Rightarrow> error + (litval option \<times> outcome \<times> bool)" where
  "provideToModule_utils idx call =
     (case call of
        CallExpression f args \<Rightarrow>
          (case args of
             [] \<Rightarrow> Inl TypeError
           | a0 # as \<Rightarrow> Inr (nodeValue a0, Replaced (createCall ''goog.module'' args), idx = 0))
      | _ \<Rightarrow> Inl TypeError)"

text \<open>\<^verbatim>\<open>paths.forEach((path, idx) => ...)\<close> for a callback that may throw.\<close>

fun forEachIndexed :: "(nat \<Rightarrow> 'p \<Rightarrow> error + 'r) \<Rightarrow> nat \<Rightarrow> 'p list \<Rightarrow> error + 'r list" where
  "forEachIndexed f idx [] = Inr []"
| "forEachIndexed f idx (p # ps) =
     (case f idx p of
        Inl e \<Rightarrow> Inl e
      | Inr r \<Rightarrow> (case forEachIndexed f (Suc idx) ps of Inl e \<Rightarrow> Inl e | Inr rs \<Rightarrow> Inr (r # rs)))"

text \<open>
  \<^verbatim>\<open>replaceProvidesWithModules(root)\<close> of the base utility, from the body of the
  program to the list of module names and, for each call found, in the order of the tree,
  what replaces it and whether \<^verbatim>\<open>addLegacyNamespace\<close> is called for its parent.
\<close>

definition replaceProvidesWithModules_utils ::
  "node list \<Rightarrow> error + (litval option list \<times> (outcome \<times> bool) list)" where
  "replaceProvidesWithModules_utils body =
     (case forEachIndexed provideToModule_utils 0 (filter isProvideCall (subnodes (Program body))) of
        Inl e \<Rightarrow> Inl e
      | Inr rs \<Rightarrow> Inr (map fst rs, map snd rs))"

section \<open>The Comment Splitter\<close>

text \<open>\<^verbatim>\<open>COMMENT_IGNORE_REGEXP = /@constructor/\<close>.\<close>

definition COMMENT_IGNORE_REGEXP :: "string \<Rightarrow> bool" where
  "COMMENT_IGNORE_REGEXP s = str_includes ''@constructor'' s"

text \<open>\<^verbatim>\<open>CTOR_COMMENT_REGEXP = /@ngInject/\<close>.\<close>

definition CTOR_COMMENT_REGEXP :: "string \<Rightarrow> bool" where
  "CTOR_COMMENT_REGEXP s = str_includes ''@ngInject'' s"

text \<open>\<^verbatim>\<open>EXTENDS = /@extends/\<close>.\<close>

definition EXTENDS :: "string \<Rightarrow> bool" where
  "EXTENDS s = str_includes ''@extends'' s"

text \<open>The characters that \<^verbatim>\<open>.\<close> matches: all but the line terminators.\<close>

definition isDot :: "char \<Rightarrow> bool" where
  "isDot c = (c \<noteq> CHR 0x0A \<and> c \<noteq> CHR 0x0D)"

text \<open>\<^verbatim>\<open>.+\<close> followed by what \<open>k\<close> matches.\<close>

fun dotPlus :: "(string \<Rightarrow> bool) \<Rightarrow> string \<Rightarrow> bool" where
  "dotPlus k [] = False"
| "dotPlus k (c # cs) = (isDot c \<and> (k cs \<or> dotPlus k cs))"

text \<open>\<^verbatim>\<open>EXTENDS_GENERIC = /@extends {.+<.+>}/\<close>, matched at the head of the string.\<close>

definition extendsGenericAt :: "string \<Rightarrow> bool" where
  "extendsGenericAt s =
     (startsWith ''@extends {'' s \<and>
      dotPlus (\<lambda>r. startsWith ''<'' r \<and> dotPlus (startsWith ''>}'') (drop 1 r))
        (drop (length ''@extends {'') s))"

fun EXTENDS_GENERIC :: "string \<Rightarrow> bool" where
  "EXTENDS_GENERIC [] = False"
| "EXTENDS_GENERIC (c # cs) = (extendsGenericAt (c # cs) \<or> EXTENDS_GENERIC cs)"

text \<open>A blank comment line: the empty string or a lone star.\<close>

definition blankPart :: "string \<Rightarrow> bool" where
  "blankPart l = (l = [] \<or> trim l = ''*'')"

text \<open>\<^verbatim>\<open>createCommentBlockFromParts(commentParts)\<close>.\<close>

definition createCommentBlockFromParts :: "string list \<Rightarrow> string" where
  "createCommentBlockFromParts commentParts =
     joinLines (''*'' # rev (dropWhile blankPart (rev (dropWhile blankPart commentParts))) @ ['' ''])"

text \<open>
  The loop of \<^verbatim>\<open>splitCommentsForClass\<close> over the remaining lines,
  with the flag
  \<^verbatim>\<open>inParam\<close> and the two lists of parts collected so far.
\<close>

fun splitLoop :: "string list \<Rightarrow> bool \<Rightarrow> string list \<Rightarrow> string list \<Rightarrow> string list \<times> string list" where
  "splitLoop [] inParam classCommentParts ctorCommentParts = (classCommentParts, ctorCommentParts)"
| "splitLoop (part # rest) inParam classCommentParts ctorCommentParts =
     (let trimmed = trim part;
          inParam1 = (if inParam \<and> \<not> startsWith ''*   '' trimmed then False else inParam)
      in if COMMENT_IGNORE_REGEXP trimmed then
           splitLoop rest inParam1 classCommentParts ctorCommentParts
         else if EXTENDS trimmed \<and> \<not> EXTENDS_GENERIC trimmed then
           splitLoop rest inParam1 classCommentParts ctorCommentParts
         else if startsWith ''* @param'' trimmed \<or> inParam1 then
           splitLoop rest True classCommentParts (ctorCommentParts @ [part])
         else if CTOR_COMMENT_REGEXP trimmed then
           splitLoop rest inParam1 classCommentParts (ctorCommentParts @ [part])
         else
           splitLoop rest inParam1 (classCommentParts @ [part]) ctorCommentParts)"

text \<open>
  \<^verbatim>\<open>splitCommentsForClass(comment)\<close>, the same in both utilities:
  the pair of the
  class comment (\<^verbatim>\<open>body\<close>) and the constructor comment
  (\<^verbatim>\<open>ctor\<close>).
\<close>

definition splitCommentsForClass :: "string \<Rightarrow> string \<times> string" where
  "splitCommentsForClass comment =
     (let origParts = splitLines (trim comment);
          (classCommentParts, ctorCommentParts) = splitLoop origParts False [] ['' * Constructor.'']
      in (createCommentBlockFromParts classCommentParts,
          createCommentBlockFromParts ctorCommentParts))"

section \<open>The exportable-property transform\<close>

text \<open>\<^verbatim>\<open>isGEPCall(node)\<close>: a call whose callee is \<^verbatim>\<open>goog.exportProperty\<close>.\<close>

definition isGEPCall :: "node \<Rightarrow> bool" where
  "isGEPCall n =
     (case n of
        CallExpression (MemberExpression (Identifier obj) (Identifier prop) c) as \<Rightarrow>
          obj = ''goog'' \<and> prop = ''exportProperty''
      | _ \<Rightarrow> False)"

text \<open>Whether a value read from a node is truthy; \<open>None\<close> is \<^verbatim>\<open>undefined\<close>.\<close>

fun truthyValue :: "litval option \<Rightarrow> bool" where
  "truthyValue None = False"
| "truthyValue (Some (LStr s)) = (s \<noteq> [])"
| "truthyValue (Some (LNum n)) = (n \<noteq> 0)"
| "truthyValue (Some (LBool b)) = b"
| "truthyValue (Some LNull) = False"

text \<open>
  \<^verbatim>\<open>exportName == fnName || `${exportName}_` == fnName\<close> for a
  truthy export name and a
  member name. A member name is an identifier name and so never the text of a number.
\<close>

fun exportsMember :: "litval \<Rightarrow> string \<Rightarrow> bool" where
  "exportsMember (LStr s) fnName = (s = fnName \<or> s @ ''_'' = fnName)"
| "exportsMember (LBool b) fnName = (b \<and> ''true_'' = fnName)"
| "exportsMember (LNum n) fnName = False"
| "exportsMember LNull fnName = False"

text \<open>
  \<^verbatim>\<open>isExportableCall(node)\<close>. The first test reads
  \<^verbatim>\<open>arguments.0.property.name\<close> through
  the safe accessor; the reads of \<^verbatim>\<open>node.arguments[1].value\<close> and of
  \<^verbatim>\<open>node.arguments[2].property.name\<close> are plain property reads.
\<close>

definition isExportableCall :: "node \<Rightarrow> error + bool" where
  "isExportableCall n =
     (case n of
        CallExpression f args \<Rightarrow>
          if isGEPCall n \<and>
             (case nth_opt args 0 of
                None \<Rightarrow> False
              | Some a0 \<Rightarrow> (case nodeProperty a0 of
                             None \<Rightarrow> False
                           | Some pr \<Rightarrow> nodeName pr = Some ''prototype''))
          then
            (case nth_opt args 1 of
               None \<Rightarrow> Inl TypeError
             | Some a1 \<Rightarrow>
                 (let exportName = nodeValue a1 in
                  case nth_opt args 2 of
                    None \<Rightarrow> Inl TypeError
                  | Some a2 \<Rightarrow>
                      (case propertyNameOf a2 of
                         Inl e \<Rightarrow> Inl e
                       | Inr fnName \<Rightarrow>
                           Inr (case (exportName, fnName) of
                                  (Some v, Some fn) \<Rightarrow>
                                    truthyValue (Some v) \<and> fn \<noteq> [] \<and> exportsMember v fn
                                | _ \<Rightarrow> False))))
          else Inr False
      | _ \<Rightarrow> Inr False)"

text \<open>\<^verbatim>\<open>name.replace(/_$/, '')\<close>.\<close>

definition stripUnderscore :: "string \<Rightarrow> string" where
  "stripUnderscore name =
     (case rev name of
        [] \<Rightarrow> name
      | c # r \<Rightarrow> if c = CHR ''_'' then rev r else name)"

text \<open>A \<^verbatim>\<open>this\<close>-qualified access of the property \<open>name\<close>, renamed.\<close>

definition renameThis :: "string \<Rightarrow> string \<Rightarrow> node \<Rightarrow> node option" where
  "renameThis name newName n =
     (case n of
        MemberExpression ThisExpression (Identifier x) c \<Rightarrow>
          if x = name then Some (MemberExpression ThisExpression (Identifier newName) c) else None
      | _ \<Rightarrow> None)"

text \<open>
  \<^verbatim>\<open>renamePrivateFn(root, name)\<close>, on the statements of the program:
  the renamed program
  and the new name.
\<close>

definition renamePrivateFn :: "node list \<Rightarrow> string \<Rightarrow> node list \<times> string" where
  "renamePrivateFn body name =
     (let newName = stripUnderscore name
      in (if newName \<noteq> name then map (rewrite (renameThis name newName)) body else body, newName))"

text \<open>\<^verbatim>\<open>newComment.replace(/\s+$/, '\n * @export\n ')\<close>.\<close>

definition appendExportTag :: "string \<Rightarrow> string" where
  "appendExportTag s =
     (let t = trimEnd s in if t = s then s else t @ NL # '' * @export'' @ [NL, CHR '' ''])"

text \<open>
  The call expression that is a child of a statement of the program, if there is one: for
  its path, \<^verbatim>\<open>path.parent.parent\<close> is the program.
\<close>

fun directChild :: "node \<Rightarrow> node option" where
  "directChild (ExpressionStatement cs e) = Some e"
| "directChild (IfStatement t c) = Some t"
| "directChild (ReturnStatement a) = Some a"
| "directChild (ClassDeclaration cs n sc ms) = sc"
| "directChild _ = None"

fun setDirectChild :: "node \<Rightarrow> node \<Rightarrow> node" where
  "setDirectChild new (ExpressionStatement cs e) = ExpressionStatement cs new"
| "setDirectChild new (IfStatement t c) = IfStatement new c"
| "setDirectChild new (ReturnStatement a) = ReturnStatement new"
| "setDirectChild new (ClassDeclaration cs n sc ms) = ClassDeclaration cs n (Some new) ms"
| "setDirectChild new n = n"

text \<open>The \<^verbatim>\<open>left\<close> property of an expression.\<close>

fun nodeLeft :: "node \<Rightarrow> node option" where
  "nodeLeft (AssignmentExpression op l r) = Some l"
| "nodeLeft (BinaryExpression op l r) = Some l"
| "nodeLeft _ = None"

text \<open>\<^verbatim>\<open>expression.left.property.name = newName\<close>.\<close>

fun setPropertyName :: "string \<Rightarrow> node \<Rightarrow> node" where
  "setPropertyName newName (MemberExpression a (Identifier x) c) = MemberExpression a (Identifier newName) c"
| "setPropertyName newName n = n"

fun setLeftPropertyName :: "string \<Rightarrow> node \<Rightarrow> node" where
  "setLeftPropertyName newName (AssignmentExpression op l r) =
     AssignmentExpression op (setPropertyName newName l) r"
| "setLeftPropertyName newName (BinaryExpression op l r) =
     BinaryExpression op (setPropertyName newName l) r"
| "setLeftPropertyName newName n = n"

text \<open>
  The callback of the first pass of the transform, for an exportable call that is a child
  of the statement at index \<open>i\<close> of the program: when the statement before it is a
  commented expression statement whose last comment is a block, the comment is updated,
  the member made public if it is marked private, and the call replaced by a placeholder.
\<close>

definition foldIntoExport :: "node list \<Rightarrow> nat \<Rightarrow> error + node list" where
  "foldIntoExport body i =
     (case (if i > 0 then nth_opt body (i - 1) else None) of
        Some (ExpressionStatement pcs pe) \<Rightarrow>
          (case pcs of
             None \<Rightarrow> Inl TypeError
           | Some cs \<Rightarrow>
               (case rev cs of
                  CommentBlock v # others \<Rightarrow>
                    (let c1 = (if \<not> str_includes ''@export'' v then appendExportTag v else v);
                         c2 = replaceFirst (NL # '' * @protected'') [] c1;
                         placeholder = CommentNode (CommentBlock ''JSCS-REMOVE'')
                     in if str_includes ''@private'' c2 then
                          (case nodeLeft pe of
                             None \<Rightarrow> Inl TypeError
                           | Some l \<Rightarrow>
                               (case propertyNameOf l of
                                  Inl e \<Rightarrow> Inl e
                                | Inr None \<Rightarrow> Inl TypeError
                                | Inr (Some name) \<Rightarrow>
                                    (let (body1, newName) = renamePrivateFn body name;
                                         c3 = replaceFirst (NL # '' * @private'') [] c2;
                                         prev1 = (case body1 ! (i - 1) of
                                                    ExpressionStatement pcs1 pe1 \<Rightarrow>
                                                      ExpressionStatement (Some (rev others @ [CommentBlock c3]))
                                                        (setLeftPropertyName newName pe1)
                                                  | other \<Rightarrow> other);
                                         body2 = body1[i - 1 := prev1]
                                     in Inr (body2[i := setDirectChild placeholder (body2 ! i)]))))
                        else
                          (let prev1 = ExpressionStatement (Some (rev others @ [CommentBlock c2])) pe;
                               body2 = body[i - 1 := prev1]
                           in Inr (body2[i := setDirectChild placeholder (body2 ! i)])))
                | _ \<Rightarrow> Inr body))
      | _ \<Rightarrow> Inr body)"

fun foldAll :: "nat list \<Rightarrow> node list \<Rightarrow> error + node list" where
  "foldAll [] body = Inr body"
| "foldAll (i # is) body =
     (case foldIntoExport body i of Inl e \<Rightarrow> Inl e | Inr body1 \<Rightarrow> foldAll is body1)"

definition isCall :: "node \<Rightarrow> bool" where
  "isCall n = (nodeType n = ''CallExpression'')"

text \<open>
  The statements of the program that have an exportable call as child, by index. The
  query has run the filter on every call of the tree before this is asked.
\<close>

definition exportableStatements :: "node list \<Rightarrow> nat list" where
  "exportableStatements body =
     filter (\<lambda>i. case directChild (body ! i) of
                   None \<Rightarrow> False
                 | Some c \<Rightarrow> isCall c \<and> isExportableCall c = Inr True)
       [0 ..< length body]"

text \<open>
  \<^verbatim>\<open>jscs.memberExpression(object, property)\<close> without the
  \<^verbatim>\<open>computed\<close> argument: the
  builder's default is \<^verbatim>\<open>true\<close> for a literal, member or binary
  expression as property.
\<close>

definition memberExpression2 :: "node \<Rightarrow> node \<Rightarrow> node" where
  "memberExpression2 obj prop =
     MemberExpression obj prop
       (nodeType prop = ''Literal'' \<or> nodeType prop = ''MemberExpression''
          \<or> nodeType prop = ''BinaryExpression'')"

text \<open>The callback of the second pass: the call becomes an assignment.\<close>

definition exportToAssignment :: "node \<Rightarrow> node option" where
  "exportToAssignment n =
     (if isGEPCall n then
        (case n of
           CallExpression f (a0 # a1 # a2 # as) \<Rightarrow>
             Some (AssignmentExpression ''='' (memberExpression2 a0 a1) a2)
         | _ \<Rightarrow> None)
      else None)"

text \<open>Whether the builders of the second pass have their three arguments.\<close>

definition hasThreeArguments :: "node \<Rightarrow> bool" where
  "hasThreeArguments n = (case n of CallExpression f as \<Rightarrow> length as \<ge> 3 | _ \<Rightarrow> True)"

text \<open>
  The transform of \<^verbatim>\<open>goog.exportProperty\<close> calls
  (\<^verbatim>\<open>module.exports\<close>), from the body of
  the parsed program to the body of the tree that is printed. The first query runs
  \<^verbatim>\<open>isExportableCall\<close> on every call of the tree; its callback then
  folds the calls that
  are children of program statements into \<^verbatim>\<open>@export\<close> annotations.
  The second query
  turns the remaining \<^verbatim>\<open>goog.exportProperty\<close> calls into assignments.
\<close>

definition exportPropertyTransform :: "node list \<Rightarrow> error + node list" where
  "exportPropertyTransform body =
     (case forEach isExportableCall (filter isCall (subnodes (Program body))) of
        Inl e \<Rightarrow> Inl e
      | Inr found \<Rightarrow>
          (case foldAll (exportableStatements body) body of
             Inl e \<Rightarrow> Inl e
           | Inr body1 \<Rightarrow>
               if list_all hasThreeArguments (filter isGEPCall (subnodes (Program body1)))
               then Inr (map (rewrite exportToAssignment) body1)
               else Inl BuilderError))"

section \<open>Equality helpers\<close>




text \<open>The \<^verbatim>\<open>arguments\<close> of a call.\<close>

fun callArguments :: "node \<Rightarrow> node list" where
  "callArguments (CallExpression f as) = as"
| "callArguments (NewExpression f as) = as"
| "callArguments _ = []"





section \<open>The routing rules of the Comment Splitter, as the specification words them\<close>

datatype route = Dropped | ToConstructor | ToClass

text \<open>A line, trimmed, that is dropped: the redundant constructor marker, or an inheritance
  tag without a generic parameter.\<close>

definition dropsLine :: "string \<Rightarrow> bool" where
  "dropsLine t = (COMMENT_IGNORE_REGEXP t \<or> (EXTENDS t \<and> \<not> EXTENDS_GENERIC t))"

text \<open>A line, trimmed, that begins a parameter tag.\<close>

definition beginsParam :: "string \<Rightarrow> bool" where
  "beginsParam t = startsWith ''* @param'' t"

text \<open>A line, trimmed, that meets the indentation threshold of a continuation line.\<close>

definition indented :: "string \<Rightarrow> bool" where
  "indented t = startsWith ''*   '' t"

text \<open>
  Line \<open>i\<close> is a continuation line inside a parameter block: it meets the threshold, and
  some earlier line that was not dropped began a parameter tag, with every line between
  the two meeting the threshold as well (the block ends at the first line below it).
\<close>

definition inParamBlock :: "string list \<Rightarrow> nat \<Rightarrow> bool" where
  "inParamBlock ls i =
     (indented (trim (ls ! i)) \<and>
      (\<exists>j \<in> {0 ..< i}. beginsParam (trim (ls ! j)) \<and> \<not> dropsLine (trim (ls ! j)) \<and>
         (\<forall>k \<in> {Suc j ..< i}. indented (trim (ls ! k)))))"

text \<open>Where line \<open>i\<close> goes: the rules in their order, the first that applies.\<close>

definition route :: "string list \<Rightarrow> nat \<Rightarrow> route" where
  "route ls i =
     (let t = trim (ls ! i)
      in if COMMENT_IGNORE_REGEXP t then Dropped
         else if EXTENDS t \<and> \<not> EXTENDS_GENERIC t then Dropped
         else if beginsParam t \<or> inParamBlock ls i then ToConstructor
         else if CTOR_COMMENT_REGEXP t then ToConstructor
         else ToClass)"

text \<open>The lines routed to one partition, in their order.\<close>

definition routedTo :: "route \<Rightarrow> string list \<Rightarrow> string list" where
  "routedTo r ls = map (\<lambda>i. ls ! i) (filter (\<lambda>i. route ls i = r) [0 ..< length ls])"

text \<open>
  The value of the flag \<^verbatim>\<open>inParam\<close> when the loop reaches line
  \<open>i\<close>, in the words of
  the rules: an earlier line opened a parameter block that no line before \<open>i\<close> has ended.
\<close>

definition paramOpenBefore :: "string list \<Rightarrow> nat \<Rightarrow> bool" where
  "paramOpenBefore ls i =
     (\<exists>j \<in> {0 ..< i}. beginsParam (trim (ls ! j)) \<and> \<not> dropsLine (trim (ls ! j)) \<and>
        (\<forall>k \<in> {Suc j ..< i}. indented (trim (ls ! k))))"

text \<open>A documentation comment with class text, a two-line parameter block, tags that are
  dropped, a generic inheritance tag and an injection marker.\<close>

definition exampleComment :: string where
  "exampleComment = joinLines [''*'', '' * A widget.'', '' * @param {string} name The name'',
     '' *     continued here.'', '' * More class text.'', '' * @constructor'',
     '' * @extends {app.Base}'', '' * @extends {app.Base<T>}'', '' * @ngInject'', '' '']"


section \<open>Expected shapes and examples\<close>

text \<open>A registry that holds one class, \<^verbatim>\<open>Widget\<close>, under the path \<^verbatim>\<open>app.Widget\<close>.\<close>

definition widgetClass :: classDef where
  "widgetClass = \<lparr>cd_comments = None, cd_name = ''Widget'', cd_superClass = None, cd_body = []\<rparr>"

definition widgetRegistry :: registry where
  "widgetRegistry = Map.empty(''app.Widget'' \<mapsto> widgetClass)"

text \<open>
  The lazily initialised singleton: the binding \<^verbatim>\<open>let instance;\<close>
  without an initial value,
  and the static accessor that constructs the instance when there is none and returns it.
\<close>

definition unsetInstance :: "string \<Rightarrow> node" where
  "unsetInstance className =
     VariableDeclaration
       (Some [CommentBlock (joinLines [''*'', '' * Global '' @ className @ '' instance.'',
                              '' * @type {'' @ className @ ''|undefined}'', '' ''])])
       ''let'' [VariableDeclarator (Identifier ''instance'') None]"

definition lazyGetInstance :: "string \<Rightarrow> node" where
  "lazyGetInstance className =
     MethodDefinition
       (Some [CommentBlock (joinLines [''*'', '' * Get the global instance.'',
                              '' * @return {!'' @ className @ ''}'', '' ''])])
       ''method'' (Identifier ''getInstance'')
       (FunctionExpression [] (BlockStatement [
          IfStatement (UnaryExpression ''!'' (Identifier ''instance'') True)
            (BlockStatement [ExpressionStatement None
               (AssignmentExpression ''='' (Identifier ''instance'')
                  (NewExpression (Identifier className) []))]),
          ReturnStatement (Identifier ''instance'')]))
       True"

text \<open>
  The eagerly initialised singleton: the binding
  \<^verbatim>\<open>const instance = new C();\<close> and the
  static accessor that returns it.
\<close>

definition eagerInstance :: "string \<Rightarrow> node" where
  "eagerInstance className =
     VariableDeclaration
       (Some [CommentBlock (joinLines [''*'', '' * Global '' @ className @ '' instance.'',
                              '' * @type {'' @ className @ ''}'', '' ''])])
       ''const''
       [VariableDeclarator (Identifier ''instance'') (Some (NewExpression (Identifier className) []))]"

definition eagerGetInstance :: "string \<Rightarrow> node" where
  "eagerGetInstance className =
     MethodDefinition
       (Some [CommentBlock (joinLines [''*'', '' * Get the global instance.'',
                              '' * @return {'' @ className @ ''}'', '' ''])])
       ''method'' (Identifier ''getInstance'')
       (FunctionExpression [] (BlockStatement [ReturnStatement (Identifier ''instance'')]))
       True"

text \<open>
  Three assignment statements of a class \<^verbatim>\<open>app.Widget\<close>: a private
  static property, a
  constant static property, and a prototype member that is an alias of another one.
\<close>

definition privateCount :: assignPath where
  "privateCount =
     \<lparr>ap_comments = Some [CommentBlock (joinLines [''*'', '' * @private'', '' ''])],
      ap_operator = ''='',
      ap_left = createMemberExpression ''app.Widget.count_'',
      ap_right = Literal (LNum 0)\<rparr>"

definition publicCount :: assignPath where
  "publicCount =
     \<lparr>ap_comments = Some [CommentBlock (joinLines [''*'', '' * @const'', '' ''])],
      ap_operator = ''='',
      ap_left = createMemberExpression ''app.Widget.COUNT'',
      ap_right = Literal (LNum 0)\<rparr>"

definition aliasMember :: assignPath where
  "aliasMember =
     \<lparr>ap_comments = None,
      ap_operator = ''='',
      ap_left = createMemberExpression ''app.Widget.prototype.draw'',
      ap_right = createMemberExpression ''app.Widget.prototype.render''\<rparr>"

text \<open>A second assignment to the private static property.\<close>

definition reassignCount :: node where
  "reassignCount = ExpressionStatement None
     (AssignmentExpression ''='' (createMemberExpression ''app.Widget.count_'') (Literal (LNum 1)))"

text \<open>
  The \<^verbatim>\<open>const\<close> declaration that the base utility builds for a private static
  property: the value of the last comment without its \<^verbatim>\<open>@private\<close>
  and \<^verbatim>\<open>@const\<close> lines.
\<close>

definition constDeclaration :: "string \<Rightarrow> comment \<Rightarrow> node \<Rightarrow> node" where
  "constDeclaration pname c init =
     VariableDeclaration
       (Some [CommentBlock (joinLines
          (filter (\<lambda>l. \<not> (trim l = ''* @private'' \<or> trim l = ''* @const''))
             (splitLines (commentValue c))))])
       ''const'' [VariableDeclarator (Identifier pname) (Some init)]"

text \<open>
  What the module-declaration pass makes of a \<^verbatim>\<open>goog.provide\<close>
  statement: the arguments of
  its call, the module name it reports and the module declaration it builds.
\<close>

fun stmtCallArgs :: "node \<Rightarrow> node list" where
  "stmtCallArgs (ExpressionStatement cs (CallExpression f as)) = as"
| "stmtCallArgs _ = []"

definition moduleNameOf :: "node \<Rightarrow> litval option" where
  "moduleNameOf s = (case stmtCallArgs s of [] \<Rightarrow> None | a # as \<Rightarrow> nodeValue a)"

definition moduleDeclarationOf :: "node \<Rightarrow> node" where
  "moduleDeclarationOf s = googModuleStmt (nodeComments s) (stmtCallArgs s)"

text \<open>Two namespace export calls and a program with them around another statement.\<close>

definition provideWidget :: node where
  "provideWidget = ExpressionStatement None (createCall ''goog.provide'' [Literal (LStr ''app.Widget'')])"

definition provideGadget :: node where
  "provideGadget = ExpressionStatement None (createCall ''goog.provide'' [Literal (LStr ''app.Gadget'')])"

text \<open>A \<^verbatim>\<open>this\<close>-qualified access of the property \<open>name\<close>.\<close>

definition isThisAccess :: "string \<Rightarrow> node \<Rightarrow> bool" where
  "isThisAccess name n =
     (case n of MemberExpression ThisExpression (Identifier x) c \<Rightarrow> x = name | _ \<Rightarrow> False)"

text \<open>
  Statements of programs that call \<^verbatim>\<open>goog.exportProperty\<close>: the
  export of a function held
  in a variable; a private method documented on one line that calls itself, and its export;
  a protected method documented on one line, and its export; an export under another name.
\<close>

definition exportPropertyCallee :: node where
  "exportPropertyCallee = MemberExpression (Identifier ''goog'') (Identifier ''exportProperty'') False"

definition exportOfIdentifier :: node where
  "exportOfIdentifier = ExpressionStatement None
     (CallExpression exportPropertyCallee
        [createMemberExpression ''Foo.prototype'', Literal (LStr ''bar''), Identifier ''bar''])"

definition privateBar :: node where
  "privateBar = ExpressionStatement (Some [CommentBlock ''* @private ''])
     (AssignmentExpression ''='' (createMemberExpression ''Foo.prototype.bar_'')
        (FunctionExpression []
           (BlockStatement [ExpressionStatement None
              (CallExpression (MemberExpression ThisExpression (Identifier ''bar_'') False) [])])))"

definition exportOfBar :: node where
  "exportOfBar = ExpressionStatement None
     (CallExpression exportPropertyCallee
        [createMemberExpression ''Foo.prototype'', Literal (LStr ''bar''),
         createMemberExpression ''Foo.prototype.bar_''])"

definition protectedBaz :: node where
  "protectedBaz = ExpressionStatement (Some [CommentBlock ''* @protected ''])
     (AssignmentExpression ''='' (createMemberExpression ''Foo.prototype.baz'')
        (FunctionExpression [] (BlockStatement [])))"

definition exportOfBaz :: node where
  "exportOfBaz = ExpressionStatement None
     (CallExpression exportPropertyCallee
        [createMemberExpression ''Foo.prototype'', Literal (LStr ''baz''),
         createMemberExpression ''Foo.prototype.baz''])"

definition notFn :: node where
  "notFn = ExpressionStatement None
     (CallExpression exportPropertyCallee
        [createMemberExpression ''Foo.prototype'', Literal (LStr ''notBar''),
         createMemberExpression ''Foo.prototype.bar''])"

text \<open>
  A program whose \<^verbatim>\<open>goog.provide\<close> calls are statements of the program: every
  statement of the body holds exactly one such call when it is a \<^verbatim>\<open>goog.provide\<close>
  statement, and none otherwise.
\<close>

definition providesAreStatements :: "node list \<Rightarrow> bool" where
  "providesAreStatements body =
     list_all (\<lambda>s. length (filter isProvideCall (subnodes s)) = (if isProvideStmt s then 1 else 0)) body"

text \<open>The module name that the pass reads from a call: the value of its first argument.\<close>

definition callModuleName :: "node \<Rightarrow> litval option" where
  "callModuleName c = (case callArguments c of [] \<Rightarrow> None | a # as \<Rightarrow> nodeValue a)"

text \<open>The path of the call of a statement, with the statement as its parent.\<close>

fun stmtPath :: "node \<Rightarrow> node \<times> node" where
  "stmtPath (ExpressionStatement cs e) = (ExpressionStatement cs e, e)"
| "stmtPath s = (s, s)"

text \<open>A \<^verbatim>\<open>goog.provide\<close> statement inside a block: \<^verbatim>\<open>if (x) { goog.provide('app.Widget'); }\<close>.\<close>

definition nestedProvide :: node where
  "nestedProvide = IfStatement (Identifier ''x'') (BlockStatement [provideWidget])"

text \<open>A \<^verbatim>\<open>goog.provide\<close> call that is not a statement: \<^verbatim>\<open>x = goog.provide('app.Widget');\<close>.\<close>

definition assignedProvide :: node where
  "assignedProvide =
     ExpressionStatement None
       (AssignmentExpression ''='' (Identifier ''x'')
          (createCall ''goog.provide'' [Literal (LStr ''app.Widget'')]))"






section \<open>Properties of the Comment Splitter\<close>

lemma paramOpenBefore_0: "paramOpenBefore ls 0 = False"
  by (simp add: paramOpenBefore_def)

lemma paramOpenBefore_Suc:
  "paramOpenBefore ls (Suc i) =
     ((beginsParam (trim (ls ! i)) \<and> \<not> dropsLine (trim (ls ! i))) \<or>
      (paramOpenBefore ls i \<and> indented (trim (ls ! i))))"
proof -
  have a: "{0 ..< Suc i} = insert i {0 ..< i}" by auto
  have b: "\<And>j. j < i \<Longrightarrow> {Suc j ..< Suc i} = insert i {Suc j ..< i}" by auto
  show ?thesis
    unfolding paramOpenBefore_def a
    by (auto simp: b)
qed

lemma splitLoop_route:
  "splitLoop (drop n ls) (paramOpenBefore ls n) cls ctor =
     (cls @ map (\<lambda>i. ls ! i) (filter (\<lambda>i. route ls i = ToClass) [n ..< length ls]),
      ctor @ map (\<lambda>i. ls ! i) (filter (\<lambda>i. route ls i = ToConstructor) [n ..< length ls]))"
proof (induction "length ls - n" arbitrary: n cls ctor)
  case 0
  then show ?case by simp
next
  case (Suc m)
  then have n: "n < length ls" by simp
  then have d: "drop n ls = ls ! n # drop (Suc n) ls"
    by (simp add: Cons_nth_drop_Suc)
  have u: "[n ..< length ls] = n # [Suc n ..< length ls]"
    using n by (simp add: upt_conv_Cons)
  have m: "m = length ls - Suc n" using Suc.hyps(2) by simp
  have ib: "inParamBlock ls n = (paramOpenBefore ls n \<and> indented (trim (ls ! n)))"
    by (auto simp: inParamBlock_def paramOpenBefore_def)
  note IH = Suc.hyps(1)[OF m]
  define t where "t = trim (ls ! n)"
  define F where "F = (paramOpenBefore ls n \<and> indented t)"
  have step: "splitLoop (drop n ls) (paramOpenBefore ls n) cls ctor =
      (if dropsLine t then splitLoop (drop (Suc n) ls) F cls ctor
       else if beginsParam t \<or> F then splitLoop (drop (Suc n) ls) True cls (ctor @ [ls ! n])
       else if CTOR_COMMENT_REGEXP t then splitLoop (drop (Suc n) ls) F cls (ctor @ [ls ! n])
       else splitLoop (drop (Suc n) ls) F (cls @ [ls ! n]) ctor)"
    unfolding d
    by (auto simp: Let_def t_def F_def dropsLine_def beginsParam_def indented_def)
  have nxt: "paramOpenBefore ls (Suc n) = ((beginsParam t \<and> \<not> dropsLine t) \<or> F)"
    by (simp add: paramOpenBefore_Suc t_def F_def)
  have r: "route ls n =
      (if dropsLine t then Dropped
       else if beginsParam t \<or> F then ToConstructor
       else if CTOR_COMMENT_REGEXP t then ToConstructor
       else ToClass)"
    by (auto simp: route_def Let_def ib t_def F_def dropsLine_def)
  show ?case
  proof (cases "dropsLine t")
    case True
    then have "paramOpenBefore ls (Suc n) = F" by (simp add: nxt)
    then show ?thesis
      unfolding u step using True IH[of cls ctor] by (simp add: r)
  next
    case False
    show ?thesis
    proof (cases "beginsParam t \<or> F")
      case True
      then have "paramOpenBefore ls (Suc n) = True" using False by (auto simp: nxt)
      then show ?thesis
        unfolding u step using True False IH[of cls "ctor @ [ls ! n]"] by (simp add: r)
    next
      case nb: False
      then have f: "paramOpenBefore ls (Suc n) = F" using False by (auto simp: nxt)
      show ?thesis
      proof (cases "CTOR_COMMENT_REGEXP t")
        case True
        then show ?thesis
          unfolding u step using nb False f IH[of cls "ctor @ [ls ! n]"] by (simp add: r)
      next
        case nc: False
        then show ?thesis
          unfolding u step using nb False f IH[of "cls @ [ls ! n]" ctor] by (simp add: r)
      qed
    qed
  qed
qed

lemma splitLoop_routedTo:
  "splitLoop ls False cls ctor = (cls @ routedTo ToClass ls, ctor @ routedTo ToConstructor ls)"
  using splitLoop_route[of 0 ls cls ctor] by (simp add: paramOpenBefore_0 routedTo_def)

text \<open>
  C5. The splitter routes every line of the trimmed comment in one ordered pass, by the
  first rule that applies: a line with \<^verbatim>\<open>@constructor\<close> is dropped;
  a line with
  \<^verbatim>\<open>@extends\<close> and no generic parameter is dropped; a line that
  begins \<^verbatim>\<open>@param\<close>, or a
  continuation line inside a parameter block (which ends at the first line below the
  indentation threshold), goes to the constructor partition; a line with
  \<^verbatim>\<open>@ngInject\<close>
  goes to the constructor partition; every other line goes to the class partition. The
  two comments returned are built from exactly these partitions, the constructor one
  after its fixed first line.
\<close>

theorem splitCommentsForClass_routes:
  "splitCommentsForClass comment =
     (createCommentBlockFromParts (routedTo ToClass (splitLines (trim comment))),
      createCommentBlockFromParts
        ('' * Constructor.'' # routedTo ToConstructor (splitLines (trim comment))))"
  by (simp add: splitCommentsForClass_def splitLoop_routedTo Let_def)

theorem splitCommentsForClass_routes_witness:
  "inParamBlock (splitLines (trim exampleComment)) 3 \<and>
   splitCommentsForClass exampleComment =
     (createCommentBlockFromParts
        [''*'', '' * A widget.'', '' * More class text.'', '' * @extends {app.Base<T>}''],
      createCommentBlockFromParts
        [
         '' * Constructor.'', '' * @param {string} name The name'', '' *     continued here.'',
         '' * @ngInject''])"
proof -
  have a: "routedTo ToClass (splitLines (trim exampleComment)) =
      [''*'', '' * A widget.'', '' * More class text.'', '' * @extends {app.Base<T>}'']"
    by code_simp
  have b: "routedTo ToConstructor (splitLines (trim exampleComment)) =
      ['' * @param {string} name The name'', '' *     continued here.'', '' * @ngInject'']"
    by code_simp
  have c: "inParamBlock (splitLines (trim exampleComment)) 3"
    by code_simp
  show ?thesis
    unfolding splitCommentsForClass_routes a b using c by simp
qed

section \<open>Properties of the inheritance rewrite\<close>

text \<open>
  C7. A base call whose second argument is a literal member name is replaced: by a bare
  \<^verbatim>\<open>super(...)\<close> call when the name is
  \<^verbatim>\<open>'constructor'\<close>, and by
  \<^verbatim>\<open>super.name(...)\<close>
  otherwise; in both cases the first two arguments are dropped and the remaining ones are
  forwarded in their order.
\<close>

theorem replaceBaseWithSuper_literal:
  "replaceBaseWithSuper (CallExpression callee (self # Literal (LStr name) # rest)) moduleName =
     Inr (Replaced
       (if name = ''constructor'' then CallExpression Super rest
        else CallExpression (MemberExpression Super (Identifier name) False) rest))"
  by (simp add: replaceBaseWithSuper_def)






section \<open>Properties of the singleton rewrite\<close>

text \<open>
  C2, as amended. For a singleton declaration whose path has a registered class, the
  extended utility replaces the declaration by a module-scoped binding that is
  initially unset and adds a static accessor that constructs the instance on first access
  and returns the stored instance; the base utility replaces it by a
  \<^verbatim>\<open>const\<close>
  binding initialised with a new instance and adds a static accessor that returns it. Both
  synthesize a documentation comment for the binding and for the accessor.
\<close>

theorem moveSingletonToClass_registered:
  assumes "getClassNode reg moduleName = Some classDef"
  shows "moveSingletonToClass reg moduleName =
           Inr (reg(moduleName \<mapsto>
                      classDef\<lparr>cd_body := cd_body classDef @ [lazyGetInstance (cd_name classDef)]\<rparr>),
                Replaced (unsetInstance (cd_name classDef))) \<and>
         moveSingletonToClass_utils reg moduleName =
           Inr (reg(moduleName \<mapsto>
                      classDef\<lparr>cd_body := cd_body classDef @ [eagerGetInstance (cd_name classDef)]\<rparr>),
                Replaced (eagerInstance (cd_name classDef)))"
  using assms
  by (simp add: moveSingletonToClass_def moveSingletonToClass_utils_def addMethodToClass_def
      setMethodComments_def getClassNode_def Let_def lazyGetInstance_def unsetInstance_def
      eagerGetInstance_def eagerInstance_def)

theorem moveSingletonToClass_registered_witness:
  "getClassNode widgetRegistry ''app.Widget'' = Some widgetClass \<and>
   map_sum id (\<lambda>(reg, out). (map_option cd_body (reg ''app.Widget''), out))
     (moveSingletonToClass widgetRegistry ''app.Widget'') =
   Inr (Some [lazyGetInstance ''Widget''], Replaced (unsetInstance ''Widget''))"
proof -
  have h: "getClassNode widgetRegistry ''app.Widget'' = Some widgetClass"
    by (simp add: getClassNode_def widgetRegistry_def)
  show ?thesis
    using h moveSingletonToClass_registered [OF h]
    by (simp add: widgetClass_def)
qed

text \<open>
  The claim as stated fails on the base utility: with \<^verbatim>\<open>Widget\<close>
  registered under
  \<^verbatim>\<open>app.Widget\<close>, the binding it builds is
  \<^verbatim>\<open>const instance = new Widget()\<close>, which is
  initialised at once, and the accessor only returns it.
\<close>

theorem moveSingletonToClass_utils_eager:
  "map_sum id (\<lambda>(reg, out). (map_option cd_body (reg ''app.Widget''), out))
     (moveSingletonToClass_utils widgetRegistry ''app.Widget'') =
   Inr (Some [MethodDefinition
                (Some [CommentBlock (joinLines [''*'', '' * Get the global instance.'',
                                       '' * @return {Widget}'', '' ''])])
                ''method'' (Identifier ''getInstance'')
                (FunctionExpression [] (BlockStatement [ReturnStatement (Identifier ''instance'')]))
                True],
        Replaced (VariableDeclaration
                    (Some [CommentBlock (joinLines [''*'', '' * Global Widget instance.'',
                                           '' * @type {Widget}'', '' ''])])
                    ''const''
                    [VariableDeclarator (Identifier ''instance'')
                       (Some (NewExpression (Identifier ''Widget'') []))]))"
  by (simp add: moveSingletonToClass_utils_def addMethodToClass_def
      setMethodComments_def getClassNode_def Let_def widgetRegistry_def widgetClass_def)

section \<open>Properties of the equality helpers\<close>







section \<open>Properties of the registry lookups\<close>

lemma function_member_without_class_throws:
  assumes "getClassNode reg moduleName = None"
    and "nodeType (ap_right p) = ''FunctionExpression''"
    and "nodeProperty (ap_left p) \<noteq> None"
  shows "convertStaticProperty_utils reg body i p moduleName = Inl TypeError \<and>
         convertStaticProperty reg p moduleName = Inl TypeError \<and>
         convertPrototypeAssignment reg p moduleName = Inl TypeError"
  using assms
  by (auto simp: convertStaticProperty_utils_def convertStaticProperty_def
      convertPrototypeAssignment_def addMethodToClass_def propertyNameOf_def Let_def)

text \<open>
  C1, as amended. When the registry has no entry for the path, the callbacks that consult
  it return without an error and leave the matched node as it is for inheritance and
  singleton declarations, for static properties that are neither function-valued nor
  private, and for prototype members that are not function-valued; a private static
  property is converted where it stands into a \<^verbatim>\<open>const\<close>
  declaration, and the references to
  it are renamed. (Function-valued members are left out of the statement.)
\<close>

theorem registry_miss_leaves_node:
  assumes "getClassNode reg moduleName = None"
  shows
    "addMethodToClass reg moduleName methodName methodValue isStatic kind = Inr (reg, None) \<and>
     moveInheritsToClass reg args moduleName = (reg, Untouched) \<and>
     moveSingletonToClass reg moduleName = Inr (reg, Untouched) \<and>
     moveSingletonToClass_utils reg moduleName = Inr (reg, Untouched) \<and>
     addStaticGetToClass reg p moduleName = Inr (reg, Untouched) \<and>
     (nodeType (ap_right p) \<noteq> ''FunctionExpression'' \<and> \<not> isPrivate (stmtOf p) \<longrightarrow>
        convertStaticProperty_utils reg body i p moduleName = Inr (reg, body)) \<and>
     (nodeType (ap_right p) \<noteq> ''FunctionExpression'' \<and> nodeProperty (ap_left p) \<noteq> None \<longrightarrow>
        (\<exists>w. convertPrototypeAssignment reg p moduleName = Inr (reg, Untouched, w))) \<and>
     (ap_left p = MemberExpression lo (Identifier pname) lc \<and> ap_comments p = Some (cs @ [c]) \<longrightarrow>
        convertPrivateClassPropertyToConst reg body i p moduleName =
          Inr (replaceReferences (moduleName @ ''.'' @ pname) (Identifier pname)
                 (body[i := constDeclaration pname c (ap_right p)])))"
proof -
  have m: "addMethodToClass reg moduleName methodName methodValue isStatic kind = Inr (reg, None)"
    using assms by (simp add: addMethodToClass_def)
  have a: "moveInheritsToClass reg args moduleName = (reg, Untouched)"
    using assms by (simp add: moveInheritsToClass_def)
  have b: "moveSingletonToClass reg moduleName = Inr (reg, Untouched)"
    using assms by (simp add: moveSingletonToClass_def)
  have c: "moveSingletonToClass_utils reg moduleName = Inr (reg, Untouched)"
    using assms by (simp add: moveSingletonToClass_utils_def)
  have d: "addStaticGetToClass reg p moduleName = Inr (reg, Untouched)"
    using assms by (simp add: addStaticGetToClass_def)
  have e: "nodeType (ap_right p) \<noteq> ''FunctionExpression'' \<and> \<not> isPrivate (stmtOf p) \<longrightarrow>
        convertStaticProperty_utils reg body i p moduleName = Inr (reg, body)"
    by (simp add: convertStaticProperty_utils_def d)
  have f: "nodeType (ap_right p) \<noteq> ''FunctionExpression'' \<and> nodeProperty (ap_left p) \<noteq> None \<longrightarrow>
        (\<exists>w. convertPrototypeAssignment reg p moduleName = Inr (reg, Untouched, w))"
    using assms
    by (auto simp: convertPrototypeAssignment_def propertyNameOf_def Let_def)
  have g: "ap_left p = MemberExpression lo (Identifier pname) lc \<and> ap_comments p = Some (cs @ [c]) \<longrightarrow>
        convertPrivateClassPropertyToConst reg body i p moduleName =
          Inr (replaceReferences (moduleName @ ''.'' @ pname) (Identifier pname)
                 (body[i := constDeclaration pname c (ap_right p)]))"
    using assms
    by (simp add: convertPrivateClassPropertyToConst_def propertyNameOf_def Let_def
        constDeclaration_def)
  show ?thesis using m a b c d e f g by blast
qed

theorem registry_miss_leaves_node_witness:
  "getClassNode Map.empty ''app.Widget'' = None \<and>
   moveInheritsToClass Map.empty [createMemberExpression ''app.Widget'', createMemberExpression ''app.Base'']
       ''app.Widget'' = (Map.empty, Untouched) \<and>
   moveSingletonToClass Map.empty ''app.Widget'' = Inr (Map.empty, Untouched) \<and>
   nodeType (ap_right publicCount) \<noteq> ''FunctionExpression'' \<and>
   \<not> isPrivate (stmtOf publicCount) \<and>
   convertStaticProperty_utils Map.empty [stmtOf publicCount] 0 publicCount ''app.Widget'' =
     Inr (Map.empty, [stmtOf publicCount]) \<and>
   nodeProperty (ap_left aliasMember) \<noteq> None \<and>
   map_sum id snd (convertPrototypeAssignment Map.empty aliasMember ''app.Widget'') =
     Inr (Untouched, []) \<and>
   convertPrivateClassPropertyToConst Map.empty [stmtOf privateCount] 0 privateCount ''app.Widget'' =
     Inr [VariableDeclaration (Some [CommentBlock (joinLines [''*'', '' ''])]) ''const''
            [VariableDeclarator (Identifier ''count_'') (Some (Literal (LNum 0)))]]"
proof -
  have h: "getClassNode Map.empty ''app.Widget'' = None"
    by (simp add: getClassNode_def)
  have n1: "nodeType (ap_right publicCount) \<noteq> ''FunctionExpression''"
    by (simp add: publicCount_def)
  have n2: "\<not> isPrivate (stmtOf publicCount)"
    by code_simp
  have n3: "nodeType (ap_right aliasMember) \<noteq> ''FunctionExpression''"
    by code_simp
  have n4: "nodeProperty (ap_left aliasMember) \<noteq> None"
    by code_simp
  have n5: "ap_left privateCount =
      MemberExpression (createMemberExpression ''app.Widget'') (Identifier ''count_'') False"
    by code_simp
  have n6: "ap_comments privateCount = Some ([] @ [CommentBlock (joinLines [''*'', '' * @private'', '' ''])])"
    by (simp add: privateCount_def)
  have n7: "map_sum id snd (convertPrototypeAssignment Map.empty aliasMember ''app.Widget'') =
      Inr (Untouched, [])"
    by code_simp
  have r: "replaceReferences (''app.Widget'' @ ''.'' @ ''count_'') (Identifier ''count_'')
             ([stmtOf privateCount][0 := constDeclaration ''count_''
                  (CommentBlock (joinLines [''*'', '' * @private'', '' ''])) (ap_right privateCount)]) =
           [VariableDeclaration (Some [CommentBlock (joinLines [''*'', '' ''])]) ''const''
              [VariableDeclarator (Identifier ''count_'') (Some (Literal (LNum 0)))]]"
    by code_simp
  note m1 = registry_miss_leaves_node [OF h, where p = publicCount and body = "[stmtOf publicCount]" and i = 0
      and args = "[createMemberExpression ''app.Widget'', createMemberExpression ''app.Base'']"]
  note m2 = registry_miss_leaves_node [OF h, where p = privateCount and body = "[stmtOf privateCount]" and i = 0
      and lo = "createMemberExpression ''app.Widget''" and pname = "''count_''" and lc = False
      and cs = "[]" and c = "CommentBlock (joinLines [''*'', '' * @private'', '' ''])"]
  show ?thesis
    using h n1 n2 n4 n5 n6 n7 m1 m2 unfolding r by blast
qed

text \<open>
  The claim as stated fails for a private static property: with an empty registry the
  statement \<^verbatim>\<open>app.Widget.count_ = 0\<close> is replaced by
  \<^verbatim>\<open>const count_ = 0\<close>.
\<close>

theorem private_static_replaced_without_class:
  "getClassNode Map.empty ''app.Widget'' = None \<and>
   map_sum id snd
     (convertStaticProperty_utils Map.empty [stmtOf privateCount] 0 privateCount ''app.Widget'') =
     Inr [VariableDeclaration (Some [CommentBlock (joinLines [''*'', '' ''])]) ''const''
            [VariableDeclarator (Identifier ''count_'') (Some (Literal (LNum 0)))]]"
  by code_simp

section \<open>Properties of the binding kind\<close>

text \<open>
  C4, as amended. When the extended utility converts a private namespace property
  that is assigned in its statement into a module-scoped binding, the kind is chosen by
  reassignment detection: \<^verbatim>\<open>const\<close> when the program has at most one
  assignment site of the
  path, \<^verbatim>\<open>let\<close> when it has two or more. When the base utility
  converts a private
  static property of a class, the binding is \<^verbatim>\<open>const\<close> whatever the
  number of assignment
  sites.
\<close>

theorem binding_kind:
  "(stmt = ExpressionStatement (Some (cs @ [c]))
             (AssignmentExpression op (MemberExpression lo (Identifier pn) lc) r) \<and>
    isPrivate stmt \<longrightarrow>
      convertNamespaceExpression body i stmt moduleName =
        Inr (replaceReferences (moduleName @ ''.'' @ pn) (Identifier pn)
               (body[i := VariableDeclaration
                             (Some [CommentBlock (replaceFirst (NL # '' * @private'') [] (commentValue c))])
                             (if length (assignmentSites (Program body) moduleName pn) \<le> 1
                              then ''const'' else ''let'')
                             [VariableDeclarator (Identifier pn) (Some r)]]))) \<and>
   (ap_left p = MemberExpression lo (Identifier pn) lc \<and> ap_comments p = Some (cs @ [c]) \<longrightarrow>
      convertPrivateClassPropertyToConst reg body i p moduleName =
        Inr (replaceReferences (moduleName @ ''.'' @ pn) (Identifier pn)
               (case getClassNode reg moduleName of
                  None \<Rightarrow> body[i := constDeclaration pn c (ap_right p)]
                | Some classDef \<Rightarrow>
                    if filter (matchesPath moduleName)
                         (subnodes (VariableDeclarator (Identifier pn) (Some (ap_right p)))) \<noteq> []
                    then removeAt i body @ [constDeclaration pn c (ap_right p)]
                    else programBody
                           (insertBeforeClass (cd_name classDef) (constDeclaration pn c (ap_right p))
                              (Program (removeAt i body))))))"
proof -
  have a: "stmt = ExpressionStatement (Some (cs @ [c]))
             (AssignmentExpression op (MemberExpression lo (Identifier pn) lc) r) \<and>
    isPrivate stmt \<longrightarrow>
      convertNamespaceExpression body i stmt moduleName =
        Inr (replaceReferences (moduleName @ ''.'' @ pn) (Identifier pn)
               (body[i := VariableDeclaration
                             (Some [CommentBlock (replaceFirst (NL # '' * @private'') [] (commentValue c))])
                             (if length (assignmentSites (Program body) moduleName pn) \<le> 1
                              then ''const'' else ''let'')
                             [VariableDeclarator (Identifier pn) (Some r)]]))"
    by (auto simp: convertNamespaceExpression_def propertyNameOf_def Let_def isReassigned_def)
  have b: "ap_left p = MemberExpression lo (Identifier pn) lc \<and> ap_comments p = Some (cs @ [c]) \<longrightarrow>
      convertPrivateClassPropertyToConst reg body i p moduleName =
        Inr (replaceReferences (moduleName @ ''.'' @ pn) (Identifier pn)
               (case getClassNode reg moduleName of
                  None \<Rightarrow> body[i := constDeclaration pn c (ap_right p)]
                | Some classDef \<Rightarrow>
                    if filter (matchesPath moduleName)
                         (subnodes (VariableDeclarator (Identifier pn) (Some (ap_right p)))) \<noteq> []
                    then removeAt i body @ [constDeclaration pn c (ap_right p)]
                    else programBody
                           (insertBeforeClass (cd_name classDef) (constDeclaration pn c (ap_right p))
                              (Program (removeAt i body)))))"
    by (auto simp: convertPrivateClassPropertyToConst_def propertyNameOf_def Let_def
        constDeclaration_def split: option.splits)
  show ?thesis using a b by blast
qed

theorem binding_kind_witness:
  "isPrivate (stmtOf privateCount) \<and>
   length (assignmentSites (Program [stmtOf privateCount]) ''app.Widget'' ''count_'') = 1 \<and>
   convertNamespaceExpression [stmtOf privateCount] 0 (stmtOf privateCount) ''app.Widget'' =
     Inr [VariableDeclaration (Some [CommentBlock (joinLines [''*'', '' ''])]) ''const''
            [VariableDeclarator (Identifier ''count_'') (Some (Literal (LNum 0)))]] \<and>
   length (assignmentSites (Program [stmtOf privateCount, reassignCount]) ''app.Widget'' ''count_'') = 2 \<and>
   convertNamespaceExpression [stmtOf privateCount, reassignCount] 0 (stmtOf privateCount) ''app.Widget'' =
     Inr [VariableDeclaration (Some [CommentBlock (joinLines [''*'', '' ''])]) ''let''
            [VariableDeclarator (Identifier ''count_'') (Some (Literal (LNum 0)))],
          ExpressionStatement None
            (AssignmentExpression ''='' (Identifier ''count_'') (Literal (LNum 1)))] \<and>
   convertPrivateClassPropertyToConst widgetRegistry
       [ClassDeclaration None ''Widget'' None [], stmtOf privateCount, reassignCount] 1
       privateCount ''app.Widget'' =
     Inr [VariableDeclaration (Some [CommentBlock (joinLines [''*'', '' ''])]) ''const''
            [VariableDeclarator (Identifier ''count_'') (Some (Literal (LNum 0)))],
          ClassDeclaration None ''Widget'' None [],
          ExpressionStatement None
            (AssignmentExpression ''='' (Identifier ''count_'') (Literal (LNum 1)))]"
proof -
  define c0 where "c0 = CommentBlock (joinLines [''*'', '' * @private'', '' ''])"
  define lo0 where "lo0 = createMemberExpression ''app.Widget''"
  have h1: "stmtOf privateCount = ExpressionStatement (Some ([] @ [c0]))
             (AssignmentExpression ''='' (MemberExpression lo0 (Identifier ''count_'') False)
                (Literal (LNum 0)))"
    unfolding c0_def lo0_def by code_simp
  have h2: "isPrivate (stmtOf privateCount)"
    by code_simp
  have h3: "ap_left privateCount = MemberExpression lo0 (Identifier ''count_'') False"
    unfolding lo0_def by code_simp
  have h4: "ap_comments privateCount = Some ([] @ [c0])"
    unfolding c0_def by (simp add: privateCount_def)
  have s1: "length (assignmentSites (Program [stmtOf privateCount]) ''app.Widget'' ''count_'') = 1"
    by code_simp
  have s2: "length (assignmentSites (Program [stmtOf privateCount, reassignCount]) ''app.Widget'' ''count_'') = 2"
    by code_simp
  note t = binding_kind [where stmt = "stmtOf privateCount" and cs = "[]" and c = c0 and op = "''=''"
      and lo = lo0 and pn = "''count_''" and lc = False and r = "Literal (LNum 0)"
      and moduleName = "''app.Widget''" and i = 0 and p = privateCount]
  note t1 = t [where body = "[stmtOf privateCount]", THEN conjunct1, rule_format, OF conjI [OF h1 h2]]
  note t2 = t [where body = "[stmtOf privateCount, reassignCount]", THEN conjunct1, rule_format,
      OF conjI [OF h1 h2]]
  note t3 = binding_kind [where p = privateCount and cs = "[]" and c = c0 and lo = lo0
      and pn = "''count_''" and lc = False and moduleName = "''app.Widget''" and i = 1
      and reg = widgetRegistry
      and body = "[ClassDeclaration None ''Widget'' None [], stmtOf privateCount, reassignCount]",
      THEN conjunct2, rule_format, OF conjI [OF h3 h4]]
  have r1: "replaceReferences (''app.Widget'' @ ''.'' @ ''count_'') (Identifier ''count_'')
      ([stmtOf privateCount][0 := VariableDeclaration
          (Some [CommentBlock (replaceFirst (NL # '' * @private'') [] (commentValue c0))])
          ''const'' [VariableDeclarator (Identifier ''count_'') (Some (Literal (LNum 0)))]]) =
      [VariableDeclaration (Some [CommentBlock (joinLines [''*'', '' ''])]) ''const''
            [VariableDeclarator (Identifier ''count_'') (Some (Literal (LNum 0)))]]"
    unfolding c0_def by code_simp
  have r2: "replaceReferences (''app.Widget'' @ ''.'' @ ''count_'') (Identifier ''count_'')
      ([stmtOf privateCount, reassignCount][0 := VariableDeclaration
          (Some [CommentBlock (replaceFirst (NL # '' * @private'') [] (commentValue c0))])
          ''let'' [VariableDeclarator (Identifier ''count_'') (Some (Literal (LNum 0)))]]) =
      [VariableDeclaration (Some [CommentBlock (joinLines [''*'', '' ''])]) ''let''
            [VariableDeclarator (Identifier ''count_'') (Some (Literal (LNum 0)))],
          ExpressionStatement None
            (AssignmentExpression ''='' (Identifier ''count_'') (Literal (LNum 1)))]"
    unfolding c0_def by code_simp
  have r3: "replaceReferences (''app.Widget'' @ ''.'' @ ''count_'') (Identifier ''count_'')
               (case getClassNode widgetRegistry ''app.Widget'' of
                  None \<Rightarrow> [ClassDeclaration None ''Widget'' None [], stmtOf privateCount, reassignCount]
                      [1 := constDeclaration ''count_'' c0 (ap_right privateCount)]
                | Some classDef \<Rightarrow>
                    if filter (matchesPath ''app.Widget'')
                         (subnodes (VariableDeclarator (Identifier ''count_'') (Some (ap_right privateCount)))) \<noteq> []
                    then removeAt 1 [ClassDeclaration None ''Widget'' None [], stmtOf privateCount, reassignCount]
                           @ [constDeclaration ''count_'' c0 (ap_right privateCount)]
                    else programBody
                           (insertBeforeClass (cd_name classDef) (constDeclaration ''count_'' c0 (ap_right privateCount))
                              (Program (removeAt 1 [ClassDeclaration None ''Widget'' None [], stmtOf privateCount, reassignCount])))) =
      [VariableDeclaration (Some [CommentBlock (joinLines [''*'', '' ''])]) ''const''
            [VariableDeclarator (Identifier ''count_'') (Some (Literal (LNum 0)))],
          ClassDeclaration None ''Widget'' None [],
          ExpressionStatement None
            (AssignmentExpression ''='' (Identifier ''count_'') (Literal (LNum 1)))]"
    unfolding c0_def by code_simp
  have k1: "(if length (assignmentSites (Program [stmtOf privateCount]) ''app.Widget'' ''count_'') \<le> 1
             then ''const'' else ''let'') = ''const''"
    using s1 by simp
  have k2: "(if length (assignmentSites (Program [stmtOf privateCount, reassignCount])
                  ''app.Widget'' ''count_'') \<le> 1
             then ''const'' else ''let'') = ''let''"
    using s2 by simp
  show ?thesis
    by (intro conjI h2 s1 s2 t1 [unfolded k1 r1] t2 [unfolded k2 r2] t3 [unfolded r3])
qed

text \<open>
  The claim as stated fails on the base utility: the program assigns
  \<^verbatim>\<open>app.Widget.count_\<close> twice, and the binding built for it is
  \<^verbatim>\<open>const\<close>.
\<close>

theorem private_static_const_when_reassigned:
  "length (assignmentSites
      (Program [ClassDeclaration None ''Widget'' None [], stmtOf privateCount, reassignCount])
      ''app.Widget'' ''count_'') = 2 \<and>
   convertPrivateClassPropertyToConst widgetRegistry
       [ClassDeclaration None ''Widget'' None [], stmtOf privateCount, reassignCount] 1
       privateCount ''app.Widget'' =
     Inr [VariableDeclaration (Some [CommentBlock (joinLines [''*'', '' ''])]) ''const''
            [VariableDeclarator (Identifier ''count_'') (Some (Literal (LNum 0)))],
          ClassDeclaration None ''Widget'' None [],
          ExpressionStatement None
            (AssignmentExpression ''='' (Identifier ''count_'') (Literal (LNum 1)))]"
  by code_simp

section \<open>Properties of the module-declaration pass\<close>

lemma subpaths_subnodes: "map snd (subpaths p n) = subnodes n"
  by (induction n arbitrary: p) (auto simp: map_concat cong: map_cong split: option.splits)

lemma filter_subpaths_length:
  "length (filter (\<lambda>(parent, n). Q n) (subpaths p n)) = length (filter Q (subnodes n))"
proof -
  have "filter Q (map snd (subpaths p n)) = map snd (filter (\<lambda>(parent, n). Q n) (subpaths p n))"
    by (simp add: filter_map comp_def case_prod_unfold)
  then show ?thesis by (metis length_map subpaths_subnodes)
qed

lemma filter_subpaths_free:
  "filter isProvideCall (subnodes s) = [] \<Longrightarrow>
     filter (\<lambda>(parent, n). isProvideCall n) (subpaths p s) = []"
  using filter_subpaths_length[of isProvideCall p s] by simp

lemma provide_shape:
  "isProvideStmt p \<Longrightarrow> \<exists>cs f args. p = ExpressionStatement cs (CallExpression f args)"
  by (auto simp: isProvideStmt_def isCallTo_def split: node.splits)

lemma provide_stmt_call:
  "isProvideStmt (ExpressionStatement cs e) = isProvideCall e"
  by (simp add: isProvideStmt_def isProvideCall_def)

lemma not_call_not_provide:
  "nodeType n \<noteq> ''CallExpression'' \<Longrightarrow> \<not> isProvideCall n"
  by (cases n) (auto simp: isProvideCall_def isCallTo_def)

lemma provide_stmt_paths:
  assumes "isProvideStmt s" and "length (filter isProvideCall (subnodes s)) = 1"
  shows "filter (\<lambda>(parent, n). isProvideCall n) (subpaths p s) = [stmtPath s]"
proof -
  from provide_shape[OF assms(1)] obtain cs f args where
    s: "s = ExpressionStatement cs (CallExpression f args)" by blast
  have c: "isProvideCall (CallExpression f args)" using assms(1) s by (simp add: provide_stmt_call)
  have ns: "\<not> isProvideCall s" using s by (simp add: not_call_not_provide)
  let ?rest = "subpaths (CallExpression f args) f @ concat (map (subpaths (CallExpression f args)) args)"
  have sp: "subpaths p s = (p, s) # (s, CallExpression f args) # ?rest"
    by (simp add: s)
  have "length (filter (\<lambda>(parent, n). isProvideCall n) (subpaths p s)) = 1"
    using filter_subpaths_length[of isProvideCall p s] assms(2) by simp
  then have "filter (\<lambda>(parent, n). isProvideCall n) ?rest = []"
    unfolding sp using c ns by simp
  then show ?thesis unfolding sp using c ns by (simp add: s)
qed

lemma providePaths_closed:
  assumes "\<forall>s \<in> set rest. length (filter isProvideCall (subnodes s)) = (if isProvideStmt s then 1 else 0)"
  shows "filter (\<lambda>(parent, n). isProvideCall n) (concat (map (subpaths p) rest)) =
           map stmtPath (filter isProvideStmt rest)"
  using assms
proof (induction rest)
  case Nil
  then show ?case by simp
next
  case (Cons s rest)
  show ?case
  proof (cases "isProvideStmt s")
    case True
    then show ?thesis using Cons provide_stmt_paths[of s p] by simp
  next
    case False
    then show ?thesis using Cons filter_subpaths_free[of s p] by simp
  qed
qed

lemma free_not_provide_stmt:
  assumes "filter isProvideCall (subnodes s) = []"
  shows "\<not> isProvideStmt s"
proof
  assume b: "isProvideStmt s"
  from provide_shape[OF b] obtain cs f args where
    s: "s = ExpressionStatement cs (CallExpression f args)" by blast
  then have "isProvideCall (CallExpression f args)" using b by (simp add: provide_stmt_call)
  then show False using assms s by (auto split: if_splits)
qed

lemma prune_free:
  "filter isProvideCall (subnodes n) = [] \<Longrightarrow> pruneProvide n = None"
  "filter isProvideCall (concat (map subnodes ss)) = [] \<Longrightarrow> pruneStmts ss = None"
  "filter isProvideCall (concat (map subnodes ns)) = [] \<Longrightarrow> pruneNodes ns = None"
proof (induction n and ss and ns rule: pruneProvide_pruneStmts_pruneNodes.induct)
  case (23 s ss)
  then show ?case using free_not_provide_stmt[of s] by auto
qed (auto split: option.splits if_splits)

lemma pruneStmts_first:
  assumes "\<forall>s \<in> set xs. filter isProvideCall (subnodes s) = []" and "isProvideStmt p"
  shows "pruneStmts (xs @ p # ys) = Some (xs @ ys)"
  using assms
proof (induction xs)
  case Nil
  then show ?case by simp
next
  case (Cons x xs)
  then show ?case
    using free_not_provide_stmt[of x] prune_free(1)[of x] by simp
qed

lemma module_callee_free:
  "filter isProvideCall (subnodes (createMemberExpression ''goog.module'')) = []"
  by code_simp

lemma module_callee_path: "pathOf (createMemberExpression ''goog.module'') = Some ''goog.module''"
  by code_simp

lemma module_stmt_free:
  assumes "filter isProvideCall (concat (map subnodes args)) = []"
  shows "filter isProvideCall (subnodes (googModuleStmt cs args)) = []"
  using assms module_callee_free
  by (simp add: googModuleStmt_def createCall_def isProvideCall_def isCallTo_def module_callee_path)

lemma legacy_stmt_free: "filter isProvideCall (subnodes legacyNamespaceStmt) = []"
  by code_simp

lemma provide_stmt_args_free:
  assumes "length (filter isProvideCall (subnodes (ExpressionStatement cs (CallExpression f args)))) = 1"
    and "isProvideStmt (ExpressionStatement cs (CallExpression f args))"
  shows "filter isProvideCall (concat (map subnodes args)) = []"
proof -
  have c: "isProvideCall (CallExpression f args)" using assms(2) by (simp add: provide_stmt_call)
  have ns: "\<not> isProvideCall (ExpressionStatement cs (CallExpression f args))"
    by (simp add: not_call_not_provide)
  show ?thesis using assms(1) c ns by simp
qed

lemma free_prunable:
  "filter isProvideCall (subnodes n) = [] \<Longrightarrow> prunable n"
  "filter isProvideCall (concat (map subnodes ss)) = [] \<Longrightarrow> prunableStmts ss"
  "filter isProvideCall (concat (map subnodes ns)) = [] \<Longrightarrow> prunableNodes ns"
proof (induction n and ss and ns rule: prunable_prunableStmts_prunableNodes.induct)
  case (23 s ss)
  then show ?case using free_not_provide_stmt[of s] by auto
qed (auto split: option.splits if_splits)

lemma statements_prunable:
  "\<forall>s \<in> set body. length (filter isProvideCall (subnodes s)) = (if isProvideStmt s then 1 else 0)
     \<Longrightarrow> prunableStmts body"
proof (induction body)
  case Nil
  then show ?case by simp
next
  case (Cons s ss)
  then show ?case using free_prunable(1)[of s] by (auto split: if_splits)
qed

lemma provideLoop_closed:
  assumes "ps = filter isProvideStmt rest"
    and "\<forall>s \<in> set pre. filter isProvideCall (subnodes s) = []"
    and "\<forall>s \<in> set rest. length (filter isProvideCall (subnodes s)) = (if isProvideStmt s then 1 else 0)"
    and "\<forall>s \<in> set ps. stmtCallArgs s \<noteq> []"
  shows "provideLoop idx (map stmtPath ps) mods (pre @ rest) =
     Inr (mods @ map moduleNameOf ps,
          rev (map moduleDeclarationOf ps) @ (if idx = 0 \<and> ps \<noteq> [] then [legacyNamespaceStmt] else [])
            @ pre @ filter (\<lambda>s. \<not> isProvideStmt s) rest)"
  using assms
proof (induction ps arbitrary: idx mods pre rest)
  case Nil
  then have "filter (\<lambda>s. \<not> isProvideStmt s) rest = rest"
    by (metis filter_True filter_empty_conv)
  then show ?case by simp
next
  case (Cons p ps)
  from Cons.prems(1) obtain r1 r2 where
    rest: "rest = r1 @ p # r2" and r1: "\<forall>s \<in> set r1. \<not> isProvideStmt s"
    and p: "isProvideStmt p" and ps: "ps = filter isProvideStmt r2"
    by (metis filter_eq_Cons_iff)
  from provide_shape[OF p] obtain cs f args where pe: "p = ExpressionStatement cs (CallExpression f args)"
    by blast
  have "stmtCallArgs p \<noteq> []" using Cons.prems(4) by simp
  then obtain a0 as where args: "args = a0 # as" using pe by (cases args) auto
  have r1free: "\<forall>s \<in> set r1. filter isProvideCall (subnodes s) = []"
  proof
    fix s assume s: "s \<in> set r1"
    then have "length (filter isProvideCall (subnodes s)) = 0"
      using Cons.prems(3) r1 by (simp add: rest)
    then show "filter isProvideCall (subnodes s) = []" by simp
  qed
  have pcount: "length (filter isProvideCall (subnodes p)) = 1"
    using Cons.prems(3) p by (simp add: rest)
  have argsfree: "filter isProvideCall (concat (map subnodes args)) = []"
    using provide_stmt_args_free[of cs f args] pcount p by (simp add: pe)
  have pr: "pruneStmts (pre @ rest) = Some (pre @ r1 @ r2)"
    using pruneStmts_first[of "pre @ r1" p r2] Cons.prems(2) r1free p by (auto simp: rest)
  define pre' where "pre' = googModuleStmt cs args # (if idx = 0 then [legacyNamespaceStmt] else []) @ pre"
  have pre': "\<forall>s \<in> set pre'. filter isProvideCall (subnodes s) = []"
    using Cons.prems(2) module_stmt_free[OF argsfree] legacy_stmt_free by (auto simp: pre'_def)
  have ps': "ps = filter isProvideStmt (r1 @ r2)"
    using ps r1 by (simp add: filter_empty_conv[THEN iffD2])
  have cnt': "\<forall>s \<in> set (r1 @ r2). length (filter isProvideCall (subnodes s)) = (if isProvideStmt s then 1 else 0)"
    using Cons.prems(3) by (simp add: rest)
  have args': "\<forall>s \<in> set ps. stmtCallArgs s \<noteq> []" using Cons.prems(4) by simp
  have step: "provideLoop idx (map stmtPath (p # ps)) mods (pre @ rest) =
      provideLoop (Suc idx) (map stmtPath ps) (mods @ [nodeValue a0]) (pre' @ (r1 @ r2))"
    by (simp add: pe args pr pre'_def Let_def)
  have flt: "filter (\<lambda>s. \<not> isProvideStmt s) rest = filter (\<lambda>s. \<not> isProvideStmt s) (r1 @ r2)"
    using p by (simp add: rest)
  show ?case
    unfolding step Cons.IH[OF ps' pre' cnt' args']
    by (simp add: pre'_def flt moduleNameOf_def moduleDeclarationOf_def pe args)
qed

lemma provideToModule_all:
  assumes "\<forall>c \<in> set calls. isProvideCall c \<and> callArguments c \<noteq> []"
  shows "forEachIndexed provideToModule_utils idx calls =
           Inr (map (\<lambda>(i, c). (callModuleName c,
                                Replaced (createCall ''goog.module'' (callArguments c)), i = 0))
                  (enumerate idx calls))"
  using assms
proof (induction calls arbitrary: idx)
  case Nil
  then show ?case by simp
next
  case (Cons c calls)
  then have "isProvideCall c" and "callArguments c \<noteq> []" by auto
  then obtain f a0 as where c: "c = CallExpression f (a0 # as)"
    by (cases c; cases "callArguments c")
       (auto simp: isProvideCall_def isCallTo_def)
  show ?case using Cons by (simp add: c provideToModule_utils_def callModuleName_def)
qed

lemma nested_provide_is_hoisted:
  "replaceProvidesWithModules [nestedProvide] =
     Some (Inr ([Some (LStr ''app.Widget'')],
          [ExpressionStatement None (createCall ''goog.module'' [Literal (LStr ''app.Widget'')]),
           legacyNamespaceStmt,
           IfStatement (Identifier ''x'') (BlockStatement [])]))"
  by code_simp

lemma assigned_provide_is_not_modelled:
  "replaceProvidesWithModules [assignedProvide] = None"
  by code_simp

text \<open>
  C3, as amended. For every program whose \<^verbatim>\<open>goog.provide\<close> calls are statements of the
  program and have an argument, the pass of the extended utility takes every such
  statement out and puts a \<^verbatim>\<open>goog.module\<close> declaration with the same arguments at the
  head of the program, the declarations in the reverse order of the calls; when there is
  such a call, the legacy-compatibility marker stands once, immediately after the
  declaration made for the first call; and the pass returns the module names in the order
  of the calls. For every program whose \<^verbatim>\<open>goog.provide\<close> calls, wherever they stand, have
  an argument, the pass of the base utility replaces every such call where it stands by a
  \<^verbatim>\<open>goog.module\<close> call with the same arguments, hands the parent of the first call, and of
  no other, to \<^verbatim>\<open>addLegacyNamespace\<close> to place the marker, and returns the module names in
  the order of the calls.
\<close>

theorem replaceProvidesWithModules_modules:
  "(providesAreStatements body \<and> (\<forall>s \<in> set body. isProvideStmt s \<longrightarrow> stmtCallArgs s \<noteq> []) \<longrightarrow>
      replaceProvidesWithModules body =
        Some (Inr (map moduleNameOf (filter isProvideStmt body),
             rev (map moduleDeclarationOf (filter isProvideStmt body))
               @ (if filter isProvideStmt body = [] then [] else [legacyNamespaceStmt])
               @ filter (\<lambda>s. \<not> isProvideStmt s) body))) \<and>
   ((\<forall>c \<in> set (filter isProvideCall (subnodes (Program body))). callArguments c \<noteq> []) \<longrightarrow>
      replaceProvidesWithModules_utils body =
        Inr (map callModuleName (filter isProvideCall (subnodes (Program body))),
             map (\<lambda>(i, c). (Replaced (createCall ''goog.module'' (callArguments c)), i = 0))
               (enumerate 0 (filter isProvideCall (subnodes (Program body))))))"
proof -
  have ext: "replaceProvidesWithModules body =
        Some (Inr (map moduleNameOf (filter isProvideStmt body),
             rev (map moduleDeclarationOf (filter isProvideStmt body))
               @ (if filter isProvideStmt body = [] then [] else [legacyNamespaceStmt])
               @ filter (\<lambda>s. \<not> isProvideStmt s) body))"
    if h: "providesAreStatements body" and a: "\<forall>s \<in> set body. isProvideStmt s \<longrightarrow> stmtCallArgs s \<noteq> []"
  proof -
    have cnt: "\<forall>s \<in> set body. length (filter isProvideCall (subnodes s)) = (if isProvideStmt s then 1 else 0)"
      using h by (simp add: providesAreStatements_def list_all_iff)
    have a': "\<forall>s \<in> set (filter isProvideStmt body). stmtCallArgs s \<noteq> []"
      using a by simp
    have paths: "providePaths body = map stmtPath (filter isProvideStmt body)"
      unfolding providePaths_def using providePaths_closed[OF cnt] .
    have g: "prunableStmts body"
      using statements_prunable[OF cnt] .
    show ?thesis
      unfolding replaceProvidesWithModules_def paths
      using provideLoop_closed[of "filter isProvideStmt body" body "[]" 0 "[]", OF refl _ cnt a'] g
      by simp
  qed
  have base: "replaceProvidesWithModules_utils body =
        Inr (map callModuleName (filter isProvideCall (subnodes (Program body))),
             map (\<lambda>(i, c). (Replaced (createCall ''goog.module'' (callArguments c)), i = 0))
               (enumerate 0 (filter isProvideCall (subnodes (Program body)))))"
    if b: "\<forall>c \<in> set (filter isProvideCall (subnodes (Program body))). callArguments c \<noteq> []"
  proof -
    define calls where "calls = filter isProvideCall (subnodes (Program body))"
    have "\<forall>c \<in> set calls. isProvideCall c \<and> callArguments c \<noteq> []"
      using b by (simp add: calls_def)
    from provideToModule_all[OF this, of 0]
    have r: "forEachIndexed provideToModule_utils 0 calls =
           Inr (map (\<lambda>(i, c). (callModuleName c,
                                Replaced (createCall ''goog.module'' (callArguments c)), i = 0))
                  (enumerate 0 calls))" .
    have m0: "map callModuleName calls = map callModuleName (map snd (enumerate 0 calls))"
      by (simp only: map_snd_enumerate)
    have m: "map (\<lambda>x. callModuleName (snd x)) (enumerate 0 calls) = map callModuleName calls"
      unfolding m0 by (simp only: map_map comp_def)
    show ?thesis
      unfolding replaceProvidesWithModules_utils_def calls_def[symmetric] r
      by (simp add: comp_def case_prod_unfold m)
  qed
  show ?thesis using ext base by blast
qed

theorem replaceProvidesWithModules_modules_witness:
  "providesAreStatements [provideWidget, stmtOf publicCount, provideGadget] \<and>
   replaceProvidesWithModules [provideWidget, stmtOf publicCount, provideGadget] =
     Some (Inr ([Some (LStr ''app.Widget''), Some (LStr ''app.Gadget'')],
          [ExpressionStatement None (createCall ''goog.module'' [Literal (LStr ''app.Gadget'')]),
           ExpressionStatement None (createCall ''goog.module'' [Literal (LStr ''app.Widget'')]),
           legacyNamespaceStmt,
           stmtOf publicCount])) \<and>
   replaceProvidesWithModules_utils [nestedProvide, stmtOf publicCount, provideGadget] =
     Inr ([Some (LStr ''app.Widget''), Some (LStr ''app.Gadget'')],
          [(Replaced (createCall ''goog.module'' [Literal (LStr ''app.Widget'')]), True),
           (Replaced (createCall ''goog.module'' [Literal (LStr ''app.Gadget'')]), False)])"
proof -
  have h1: "providesAreStatements [provideWidget, stmtOf publicCount, provideGadget]"
    by code_simp
  have h2: "\<forall>s \<in> set [provideWidget, stmtOf publicCount, provideGadget].
             isProvideStmt s \<longrightarrow> stmtCallArgs s \<noteq> []"
    by code_simp
  have h3: "\<forall>c \<in> set (filter isProvideCall
               (subnodes (Program [nestedProvide, stmtOf publicCount, provideGadget]))).
             callArguments c \<noteq> []"
    by code_simp
  have r1: "(map moduleNameOf (filter isProvideStmt [provideWidget, stmtOf publicCount, provideGadget]),
          rev (map moduleDeclarationOf
                 (filter isProvideStmt [provideWidget, stmtOf publicCount, provideGadget]))
            @ (if filter isProvideStmt [provideWidget, stmtOf publicCount, provideGadget] = []
               then [] else [legacyNamespaceStmt])
            @ filter (\<lambda>s. \<not> isProvideStmt s) [provideWidget, stmtOf publicCount, provideGadget]) =
      ([Some (LStr ''app.Widget''), Some (LStr ''app.Gadget'')],
          [ExpressionStatement None (createCall ''goog.module'' [Literal (LStr ''app.Gadget'')]),
           ExpressionStatement None (createCall ''goog.module'' [Literal (LStr ''app.Widget'')]),
           legacyNamespaceStmt,
           stmtOf publicCount])"
    by code_simp
  have r2: "(map callModuleName
               (filter isProvideCall
                  (subnodes (Program [nestedProvide, stmtOf publicCount, provideGadget]))),
             map (\<lambda>(i, c). (Replaced (createCall ''goog.module'' (callArguments c)), i = 0))
               (enumerate 0 (filter isProvideCall
                  (subnodes (Program [nestedProvide, stmtOf publicCount, provideGadget]))))) =
      ([Some (LStr ''app.Widget''), Some (LStr ''app.Gadget'')],
          [(Replaced (createCall ''goog.module'' [Literal (LStr ''app.Widget'')]), True),
           (Replaced (createCall ''goog.module'' [Literal (LStr ''app.Gadget'')]), False)])"
    by code_simp
  note t1 = replaceProvidesWithModules_modules
      [where body = "[provideWidget, stmtOf publicCount, provideGadget]",
       THEN conjunct1, THEN mp, OF conjI [OF h1 h2], unfolded r1]
  note t2 = replaceProvidesWithModules_modules
      [where body = "[nestedProvide, stmtOf publicCount, provideGadget]",
       THEN conjunct2, THEN mp, OF h3, unfolded r2]
  show ?thesis
    by (intro conjI h1 t1 t2)
qed

text \<open>
  The claim as stated fails on the extended utility: for a program that is one
  \<^verbatim>\<open>goog.provide\<close> statement, the marker is the second statement of the result, after
  the module declaration, not before it.
\<close>

theorem legacy_marker_after_module:
  "replaceProvidesWithModules [provideWidget] =
     Some (Inr ([Some (LStr ''app.Widget'')],
          [ExpressionStatement None (createCall ''goog.module'' [Literal (LStr ''app.Widget'')]),
           ExpressionStatement None (createCall ''goog.module.declareLegacyNamespace'' [])]))"
  by code_simp

section \<open>Properties of the exportable-property transform\<close>

lemma renameThis_Some:
  "renameThis name newName n = Some r \<Longrightarrow>
     \<exists>c. n = MemberExpression ThisExpression (Identifier name) c \<and>
         r = MemberExpression ThisExpression (Identifier newName) c"
  by (auto simp: renameThis_def split: node.splits if_splits)

lemma renameThis_None:
  "renameThis name newName n = None \<Longrightarrow> \<not> isThisAccess name n"
  by (auto simp: renameThis_def isThisAccess_def split: node.splits if_splits)

lemma rewrite_rename_This:
  "rewrite (renameThis name newName) a = ThisExpression \<Longrightarrow> a = ThisExpression"
  by (cases a) (auto simp: renameThis_def split: option.splits node.splits if_splits)

lemma rewrite_rename_Identifier:
  "rewrite (renameThis name newName) b = Identifier x \<Longrightarrow> b = Identifier x"
  by (cases b) (auto simp: renameThis_def split: option.splits node.splits if_splits)

lemma rename_leaves_no_old_reference:
  assumes "newName \<noteq> name"
  shows "\<forall>n \<in> set (subnodes (rewrite (renameThis name newName) root)). \<not> isThisAccess name n"
proof (induction root)
  case (MemberExpression a b c)
  show ?case
  proof (cases "renameThis name newName (MemberExpression a b c)")
    case None
    have "\<not> isThisAccess name (MemberExpression (rewrite (renameThis name newName) a)
              (rewrite (renameThis name newName) b) c)"
    proof
      assume h: "isThisAccess name (MemberExpression (rewrite (renameThis name newName) a)
              (rewrite (renameThis name newName) b) c)"
      then have "rewrite (renameThis name newName) a = ThisExpression"
        and "rewrite (renameThis name newName) b = Identifier name"
        by (auto simp: isThisAccess_def split: node.splits)
      then have "a = ThisExpression" "b = Identifier name"
        using rewrite_rename_This rewrite_rename_Identifier by blast+
      then show False using None by (simp add: renameThis_def)
    qed
    then show ?thesis using None MemberExpression by auto
  next
    case (Some r)
    from renameThis_Some[OF Some] show ?thesis
      using assms Some by (auto simp: isThisAccess_def)
  qed
qed (auto simp: renameThis_def isThisAccess_def split: option.splits)

lemma renamePrivateFn_consistent:
  assumes "stripUnderscore name \<noteq> name"
  shows "snd (renamePrivateFn body name) = stripUnderscore name \<and>
         (\<forall>s \<in> set (fst (renamePrivateFn body name)).
            \<forall>n \<in> set (subnodes s). \<not> isThisAccess name n)"
  using assms rename_leaves_no_old_reference [of "stripUnderscore name" name]
  by (simp add: renamePrivateFn_def Let_def)

lemma exportToAssignment_call:
  "exportToAssignment
     (CallExpression (MemberExpression (Identifier ''goog'') (Identifier ''exportProperty'') c)
        (a0 # a1 # a2 # as)) =
     Some (AssignmentExpression ''='' (memberExpression2 a0 a1) a2)"
  by (simp add: exportToAssignment_def isGEPCall_def)

lemma exportProperty_fallback_example:
  "exportPropertyTransform [protectedBaz, notFn] =
     Inr [protectedBaz,
          ExpressionStatement None
            (AssignmentExpression ''=''
               (MemberExpression (createMemberExpression ''Foo.prototype'') (Literal (LStr ''notBar'')) True)
               (createMemberExpression ''Foo.prototype.bar''))]"
  by code_simp

text \<open>
  C8. The renaming is consistent (\<open>renamePrivateFn_consistent\<close>), but the tags are only
  removed where they stand on a line of their own after a line feed. For the private method
  \<^verbatim>\<open>/** @private */ Foo.prototype.bar_ = function() { this.bar_(); };\<close>
  followed by
  \<^verbatim>\<open>goog.exportProperty(Foo.prototype, 'bar', Foo.prototype.bar_);\<close>
  the member and its
  self-reference are renamed to \<^verbatim>\<open>bar\<close>, and the comment carried
  over still has
  \<^verbatim>\<open>@private\<close>, next to the new \<^verbatim>\<open>@export\<close>.
\<close>

theorem private_tag_kept_in_one_line_comment:
  "exportPropertyTransform [privateBar, exportOfBar] =
     Inr [ExpressionStatement (Some [CommentBlock (joinLines [''* @private'', '' * @export'', '' ''])])
            (AssignmentExpression ''='' (createMemberExpression ''Foo.prototype.bar'')
               (FunctionExpression []
                  (BlockStatement [ExpressionStatement None
                     (CallExpression (MemberExpression ThisExpression (Identifier ''bar'') False) [])]))),
          ExpressionStatement None (CommentNode (CommentBlock ''JSCS-REMOVE''))]"
  by code_simp

text \<open>
  C10. A call that is not exportable is not always turned into an assignment: the filter
  of the first query reads \<^verbatim>\<open>node.arguments[2].property.name\<close>, and for
  \<^verbatim>\<open>goog.exportProperty(Foo.prototype, 'bar', bar);\<close>, whose third
  argument is an
  identifier, that read is a \<^verbatim>\<open>TypeError\<close> that ends the transform.
\<close>

theorem export_of_identifier_throws:
  "exportPropertyTransform [exportOfIdentifier] = Inl TypeError"
  by code_simp

end
